theory Spec2Isabelle
  imports Main "HOL-Library.AList"
begin

section \<open>JavaScript values and objects\<close>

text \<open>
  The repository keeps three revisions of its socket module. The session manager under
  study is the one in lines 216 to 430 of \<^verbatim>\<open>src/unnamed/part_000\<close> (the one with
  \<^verbatim>\<open>CHOICE_TIME = 20000\<close> and the event names \<^verbatim>\<open>round-result\<close>, \<^verbatim>\<open>start-round\<close>,
  \<^verbatim>\<open>game-over\<close>); line numbers below are those of that file. Lines 1 to 214 of the
  same file and \<^verbatim>\<open>src/socket.js\<close> are the two other revisions; what they do
  differently on joining and disconnecting is modelled in the two sections before the
  proofs. \<^verbatim>\<open>determineRoundWinner\<close> is the same text in lines 79 to 83 and 302 to 306.

  The two module-level objects \<^verbatim>\<open>connectedUsers\<close> and \<^verbatim>\<open>roomStates\<close> and the pending
  timers of the event loop form the state; every handler takes the state and returns the
  new state with the list of events it emitted, or \<open>Inl TypeError\<close> where the JavaScript
  throws (an uncaught exception in a handler: the state is lost with the process).

  A JavaScript object used as a dictionary is an association list of its own properties
  in insertion order (\<open>AList.update\<close> overwrites in place or appends, \<open>AList.delete\<close>
  removes, \<open>map_of\<close> reads). Properties inherited from \<^verbatim>\<open>Object.prototype\<close> are not
  modelled: the association list is the object on the keys that \<open>ordinaryKey\<close> below
  admits, and the theorems about the players of a room assume it of their usernames.
  Keys are taken not to be array indices, which JavaScript would list first.
  Strings are lists of characters and \<open>length\<close> stands for \<^verbatim>\<open>.length\<close>. Payload fields
  that the handlers test for truthiness are \<open>jsval\<close>s; the others are strings, as the
  interface describes them.
\<close>

datatype jsval = Undefined | Null | Str string

datatype jsnum = Num int | NaN

datatype error = TypeError

type_synonym 'v obj = "(string \<times> 'v) list"

fun truthy :: "jsval \<Rightarrow> bool" where
  "truthy Undefined = False"
| "truthy Null = False"
| "truthy (Str s) = (s \<noteq> [])"

text \<open>The property name a value is converted to when it indexes an object.\<close>

fun propKey :: "jsval \<Rightarrow> string" where
  "propKey Undefined = ''undefined''"
| "propKey Null = ''null''"
| "propKey (Str s) = s"

text \<open>
  \<^verbatim>\<open>o[k]\<close> for an object of string-or-null values, on its own properties: a missing
  property reads \<^verbatim>\<open>undefined\<close>. This is the code's read for every key but the names
  listed in \<open>objectPrototypeNames\<close> below.
\<close>

definition getProp :: "jsval obj \<Rightarrow> jsval \<Rightarrow> jsval" where
  "getProp ob k = (case map_of ob (propKey k) of None \<Rightarrow> Undefined | Some v \<Rightarrow> v)"

text \<open>
  The names of the members of \<^verbatim>\<open>Object.prototype\<close>. Under such a name an object
  literal reads an inherited function or object, which is truthy, and an assignment to
  \<^verbatim>\<open>__proto__\<close> creates no own property; under every other name reading, assigning,
  deleting and \<^verbatim>\<open>Object.keys\<close> see own properties only.
\<close>

definition objectPrototypeNames :: "string list" where
  "objectPrototypeNames =
     [''constructor'', ''__defineGetter__'', ''__defineSetter__'', ''hasOwnProperty'',
      ''__lookupGetter__'', ''__lookupSetter__'', ''isPrototypeOf'', ''propertyIsEnumerable'',
      ''toString'', ''valueOf'', ''__proto__'', ''toLocaleString'']"

definition ordinaryKey :: "string \<Rightarrow> bool" where
  "ordinaryKey k = (k \<notin> set objectPrototypeNames)"

section \<open>The data model\<close>

text \<open>An entry of \<^verbatim>\<open>connectedUsers\<close>: \<^verbatim>\<open>{ username, room, socketId }\<close>.\<close>

record user =
  username :: string
  room :: string
  socketId :: string

text \<open>An element of a room's \<^verbatim>\<open>connectedUsers\<close> array: \<^verbatim>\<open>{ username, socketId }\<close>.\<close>

record seat =
  seatUsername :: string
  seatSocketId :: string

text \<open>
  A pending timer of the event loop, by the closure it will run: the round timer of
  \<^verbatim>\<open>startNextRound\<close> (it captures \<^verbatim>\<open>ROOM_NAME\<close>) and the reconnection timer of
  \<^verbatim>\<open>markUserForReconnection\<close> (it captures \<^verbatim>\<open>username\<close> and \<^verbatim>\<open>room\<close>).
\<close>

datatype timer = RoundTimer string | GraceTimer string string

text \<open>
  A value of \<^verbatim>\<open>roomStates\<close>. The field \<open>roomUsers\<close> is the room's \<^verbatim>\<open>connectedUsers\<close>
  array and \<open>roundNo\<close> its \<^verbatim>\<open>round\<close>; \<open>roundTimeout\<close> is \<^verbatim>\<open>null\<close> or the handle
  \<^verbatim>\<open>setTimeout\<close> returned.
\<close>

record roomState =
  roomUsers :: "seat list"
  scores :: "jsnum obj"
  roundNo :: int
  choices :: "jsval obj"
  roundTimeout :: "nat option"

record state =
  connectedUsers :: "user obj"
  roomStates :: "roomState obj"
  timers :: "(nat \<times> timer) list"
  nextTimer :: nat

definition init :: state where
  "init = \<lparr>connectedUsers = [], roomStates = [], timers = [], nextTimer = 0\<rparr>"

text \<open>What a handler emits: to one socket (\<^verbatim>\<open>socket.emit\<close>) or to a room (\<^verbatim>\<open>io.to(room).emit\<close>).\<close>

datatype target = ToSocket string | ToRoom string

datatype payload =
    Exception string
  | RoomJoin string
  | RoomReady string
  | RoomReconnect string
  | RoomDisconnect string
  | RoundResult int "jsval obj" string "jsnum obj"
  | StartRound int int
  | GameOver jsval

type_synonym emit = "target \<times> payload"

type_synonym result = "error + state \<times> emit list"

section \<open>Timers\<close>

definition CHOICE_TIME :: int where
  "CHOICE_TIME = 20000"

text \<open>\<^verbatim>\<open>clearTimeout\<close>: no effect on \<^verbatim>\<open>null\<close> or on a handle that fired or was cleared.\<close>

definition clearTimeout :: "nat option \<Rightarrow> state \<Rightarrow> state" where
  "clearTimeout h s =
     (case h of None \<Rightarrow> s | Some n \<Rightarrow> s\<lparr>timers := AList.delete n (timers s)\<rparr>)"

text \<open>\<^verbatim>\<open>setTimeout\<close>: a fresh handle, pending until it fires or is cleared.\<close>

definition setTimeout :: "timer \<Rightarrow> state \<Rightarrow> nat \<times> state" where
  "setTimeout t s =
     (nextTimer s, s\<lparr>timers := timers s @ [(nextTimer s, t)], nextTimer := Suc (nextTimer s)\<rparr>)"

section \<open>The round resolver\<close>

definition winMap :: "jsval obj" where
  "winMap = [(''rock'', Str ''scissors''), (''paper'', Str ''rock''), (''scissors'', Str ''paper'')]"

definition determineRoundWinner :: "jsval \<Rightarrow> jsval \<Rightarrow> string" where
  "determineRoundWinner choice1 choice2 =
     (if choice1 = choice2 then ''tie''
      else if getProp winMap choice1 = choice2 then ''player1'' else ''player2'')"

section \<open>Rounds\<close>

text \<open>\<^verbatim>\<open>cleanupGame\<close> (lines 422 to 428).\<close>

definition cleanupGame :: "string \<Rightarrow> state \<Rightarrow> state" where
  "cleanupGame ROOM_NAME s =
     (case map_of (roomStates s) ROOM_NAME of
        None \<Rightarrow> s
      | Some roomState \<Rightarrow>
          (let s1 = clearTimeout (roundTimeout roomState) s
           in s1\<lparr>roomStates := AList.delete ROOM_NAME (roomStates s1)\<rparr>))"

text \<open>
  \<^verbatim>\<open>startNextRound\<close> (lines 363 to 380). Reading \<^verbatim>\<open>roundTimeout\<close> of a missing room
  throws. The timer's closure is \<open>roundTimerFired\<close> below.
\<close>

definition startNextRound :: "string \<Rightarrow> state \<Rightarrow> result" where
  "startNextRound ROOM_NAME s =
     (case map_of (roomStates s) ROOM_NAME of
        None \<Rightarrow> Inl TypeError
      | Some roomState \<Rightarrow>
          (let s1 = clearTimeout (roundTimeout roomState) s;
               (h, s2) = setTimeout (RoundTimer ROOM_NAME) s1;
               s3 = s2\<lparr>roomStates :=
                      AList.update ROOM_NAME (roomState\<lparr>roundTimeout := Some h\<rparr>) (roomStates s2)\<rparr>
           in Inr (s3, [(ToRoom ROOM_NAME, StartRound (roundNo roomState) (CHOICE_TIME div 1000))])))"

text \<open>
  \<^verbatim>\<open>const [player1, player2] = roomState.connectedUsers.map(user => user.username)\<close>:
  a missing element is \<^verbatim>\<open>undefined\<close>.
\<close>

definition players :: "roomState \<Rightarrow> jsval \<times> jsval" where
  "players roomState =
     (case map seatUsername (roomUsers roomState) of
        [] \<Rightarrow> (Undefined, Undefined)
      | [a] \<Rightarrow> (Str a, Undefined)
      | a # b # _ \<Rightarrow> (Str a, Str b))"

text \<open>\<^verbatim>\<open>scores[p]++\<close>: a missing score and \<^verbatim>\<open>NaN\<close> both become \<^verbatim>\<open>NaN\<close>.\<close>

definition increment :: "jsval \<Rightarrow> jsnum obj \<Rightarrow> jsnum obj" where
  "increment p sc =
     AList.update (propKey p)
       (case map_of sc (propKey p) of
          None \<Rightarrow> NaN
        | Some NaN \<Rightarrow> NaN
        | Some (Num n) \<Rightarrow> Num (n + 1)) sc"

text \<open>\<^verbatim>\<open>x === 5\<close> and \<^verbatim>\<open>x === y\<close> on scores that may be missing or \<^verbatim>\<open>NaN\<close>.\<close>

definition isFive :: "jsnum option \<Rightarrow> bool" where
  "isFive x = (x = Some (Num 5))"

definition sameScore :: "jsnum option \<Rightarrow> jsnum option \<Rightarrow> bool" where
  "sameScore x y =
     (case (x, y) of
        (None, None) \<Rightarrow> True
      | (Some (Num a), Some (Num b)) \<Rightarrow> a = b
      | _ \<Rightarrow> False)"

text \<open>
  Lines 351 to 353: whether the game is over after the scoreboard update, and who won.
\<close>

definition gameWinner :: "jsnum obj \<Rightarrow> jsval \<Rightarrow> jsval \<Rightarrow> jsval option" where
  "gameWinner sc player1 player2 =
     (if isFive (map_of sc (propKey player1)) \<or> isFive (map_of sc (propKey player2)) then
        (let winner = (if isFive (map_of sc (propKey player1)) then player1 else player2)
         in if sameScore (map_of sc (propKey player1)) (map_of sc (propKey player2))
            then Some (Str ''tie'') else Some winner)
      else None)"

text \<open>Lines 332 to 337: the scoreboard update for a result.\<close>

definition updateScores :: "string \<Rightarrow> jsval \<Rightarrow> jsval \<Rightarrow> jsnum obj \<Rightarrow> jsnum obj" where
  "updateScores res player1 player2 sc =
     (let sc1 = (if res = ''player1'' then increment player1 sc else sc);
          sc2 = (if res = ''player2'' then increment player2 sc1 else sc1)
      in if res = ''tie'' then increment player2 (increment player1 sc2) else sc2)"

text \<open>
  Lines 328 to 358 of \<^verbatim>\<open>handlePlayerChoice\<close>: the body run once both choices are in.
  The room object is written back to the table before \<^verbatim>\<open>cleanupGame\<close> or
  \<^verbatim>\<open>startNextRound\<close> look it up again.
\<close>

definition resolveRound :: "string \<Rightarrow> roomState \<Rightarrow> state \<Rightarrow> result" where
  "resolveRound rm roomState s =
     (let (player1, player2) = players roomState;
          res = determineRoundWinner (getProp (choices roomState) player1)
                   (getProp (choices roomState) player2);
          sc = updateScores res player1 player2 (scores roomState);
          out = (ToRoom rm, RoundResult (roundNo roomState) (choices roomState) res sc);
          roomState1 = roomState\<lparr>scores := sc, choices := [], roundNo := roundNo roomState + 1\<rparr>;
          s1 = s\<lparr>roomStates := AList.update rm roomState1 (roomStates s)\<rparr>
      in case gameWinner sc player1 player2 of
           Some winner \<Rightarrow> Inr (cleanupGame rm s1, [out, (ToRoom rm, GameOver winner)])
         | None \<Rightarrow>
             (case startNextRound rm s1 of
                Inl e \<Rightarrow> Inl e
              | Inr (s2, es) \<Rightarrow> Inr (s2, out # es)))"

definition validChoice :: "jsval \<Rightarrow> bool" where
  "validChoice choice = (choice \<in> set [Str ''rock'', Str ''paper'', Str ''scissors''])"

text \<open>
  \<^verbatim>\<open>handlePlayerChoice\<close> (lines 309 to 360). \<open>socket\<close> is \<open>None\<close> for the call the
  round timer makes with \<^verbatim>\<open>null\<close>; then the validation does not return, and a missing
  room throws at \<^verbatim>\<open>roomState.choices\<close>.
\<close>

definition handlePlayerChoice :: "string option \<Rightarrow> jsval \<Rightarrow> string \<Rightarrow> jsval \<Rightarrow> state \<Rightarrow> result" where
  "handlePlayerChoice socket uname rm choice s =
     (case (if map_of (roomStates s) rm = None \<or> \<not> validChoice choice then socket else None) of
        Some sock \<Rightarrow> Inr (s, [(ToSocket sock, Exception ''invalid choice or room'')])
      | None \<Rightarrow>
          (case map_of (roomStates s) rm of
             None \<Rightarrow> Inl TypeError
           | Some roomState \<Rightarrow>
               (let roomState1 =
                      (if truthy uname
                       then roomState\<lparr>choices := AList.update (propKey uname) choice (choices roomState)\<rparr>
                       else roomState)
                in if length (map fst (choices roomState1)) = 2 then resolveRound rm roomState1 s
                   else Inr (s\<lparr>roomStates := AList.update rm roomState1 (roomStates s)\<rparr>, []))))"

text \<open>
  Lines 369 to 373: the choices after the round timer has filled in \<^verbatim>\<open>'rock'\<close> for each
  of \<^verbatim>\<open>player1\<close>, \<^verbatim>\<open>player2\<close> whose entry is falsy.
\<close>

definition defaultChoices :: "roomState \<Rightarrow> jsval obj" where
  "defaultChoices roomState =
     (let (player1, player2) = players roomState;
          c1 = (if \<not> truthy (getProp (choices roomState) player1)
                then AList.update (propKey player1) (Str ''rock'') (choices roomState)
                else choices roomState)
      in if \<not> truthy (getProp c1 player2)
         then AList.update (propKey player2) (Str ''rock'') c1
         else c1)"

text \<open>
  The closure \<^verbatim>\<open>startNextRound\<close> hands to \<^verbatim>\<open>setTimeout\<close> (lines 368 to 376). It holds the
  room object it was created for; that object is the table's entry for \<^verbatim>\<open>ROOM_NAME\<close> as
  long as the timer is pending, because \<^verbatim>\<open>cleanupGame\<close> clears the handle when it deletes
  the entry, so the model reads the room from the table.
\<close>

definition roundTimerFired :: "string \<Rightarrow> state \<Rightarrow> result" where
  "roundTimerFired ROOM_NAME s =
     (case map_of (roomStates s) ROOM_NAME of
        None \<Rightarrow> Inl TypeError
      | Some roomState \<Rightarrow>
          handlePlayerChoice None Null ROOM_NAME Null
            (s\<lparr>roomStates :=
                 AList.update ROOM_NAME (roomState\<lparr>choices := defaultChoices roomState\<rparr>) (roomStates s)\<rparr>))"

section \<open>Joining, leaving and the reconnection grace\<close>

text \<open>
  \<^verbatim>\<open>handleConnectToRoom\<close> (lines 242 to 299), in two parts. \<open>joinRoom\<close> is lines 259
  to 298, run once the payload is valid and the socket is not the one already seated
  first: the registry entry, the room's seat and score, the broadcasts and the first round.
\<close>

definition joinRoom :: "string \<Rightarrow> string \<Rightarrow> string \<Rightarrow> state \<Rightarrow> result" where
  "joinRoom socket uname rm s =
     (let ROOM_NAME = ''room:'' @ rm;
          isReconnecting =
            list_ex (\<lambda>u. username u = uname \<and> room u = rm) (map snd (connectedUsers s));
          oldSocketId =
            map_option fst (find (\<lambda>(id, u). username u = uname) (connectedUsers s));
          entry = \<lparr>username = uname, room = rm, socketId = socket\<rparr>;
          cu = (if isReconnecting then
                  AList.update socket entry
                    (case oldSocketId of
                       None \<Rightarrow> connectedUsers s
                     | Some old \<Rightarrow>
                         if old \<noteq> [] then AList.delete old (connectedUsers s)
                         else connectedUsers s)
                else AList.update socket entry (connectedUsers s));
          es1 = (if isReconnecting
                 then [(ToSocket socket, RoomReconnect (uname @ '' rejoined '' @ ROOM_NAME))]
                 else []);
          roomState1 =
            (case map_of (roomStates s) ROOM_NAME of
               None \<Rightarrow>
                 \<lparr>roomUsers = [\<lparr>seatUsername = uname, seatSocketId = socket\<rparr>],
                  scores = [(uname, Num 0)], roundNo = 1, choices = [],
                  roundTimeout = None\<rparr>
             | Some roomState \<Rightarrow>
                 roomState\<lparr>roomUsers :=
                             roomUsers roomState @ [\<lparr>seatUsername = uname, seatSocketId = socket\<rparr>],
                           scores := AList.update uname (Num 0) (scores roomState)\<rparr>);
          s1 = s\<lparr>connectedUsers := cu,
                 roomStates := AList.update ROOM_NAME roomState1 (roomStates s)\<rparr>;
          es2 = es1 @ [(ToRoom ROOM_NAME, RoomJoin (uname @ '' joined '' @ ROOM_NAME))]
      in if length (roomUsers roomState1) = 2 then
           (case startNextRound ROOM_NAME s1 of
              Inl e \<Rightarrow> Inl e
            | Inr (s2, es3) \<Rightarrow>
                Inr (s2, es2 @ (ToRoom ROOM_NAME, RoomReady ''players are ready, waiting for choice'') # es3))
         else Inr (s1, es2))"

text \<open>
  Lines 242 to 257: the validation and the duplicate check. \<^verbatim>\<open>socket.join\<close> acts on the
  transport only. The payload's \<^verbatim>\<open>username\<close> and \<^verbatim>\<open>room\<close> are strings, the empty one
  being falsy. Line 255 reads \<^verbatim>\<open>connectedUsers[0].socketId\<close> of an existing room without
  a guard, which throws when every seat has been vacated.
\<close>

definition handleConnectToRoom :: "string \<Rightarrow> string \<Rightarrow> string \<Rightarrow> state \<Rightarrow> result" where
  "handleConnectToRoom socket uname rm s =
     (if uname = [] \<or> rm = [] \<or> length rm \<le> 4 then
        Inr (s, [(ToSocket socket, Exception ''invalid room or username'')])
      else
        (case map_of (roomStates s) (''room:'' @ rm) of
           None \<Rightarrow> joinRoom socket uname rm s
         | Some roomState \<Rightarrow>
             (case roomUsers roomState of
                [] \<Rightarrow> Inl TypeError
              | u # _ \<Rightarrow>
                  if seatSocketId u = socket then Inr (s, []) else joinRoom socket uname rm s)))"

text \<open>
  \<^verbatim>\<open>markUserForReconnection\<close> (lines 397 to 419): the synchronous part, and the closure
  given to \<^verbatim>\<open>setTimeout\<close>.
\<close>

definition markUserForReconnection :: "string \<Rightarrow> string \<Rightarrow> state \<Rightarrow> state" where
  "markUserForReconnection uname rm s =
     (let s1 = (case map_of (roomStates s) rm of
                  None \<Rightarrow> s
                | Some roomState \<Rightarrow>
                    s\<lparr>roomStates :=
                        AList.update rm
                          (roomState\<lparr>roomUsers := filter (\<lambda>u. seatUsername u \<noteq> uname) (roomUsers roomState)\<rparr>)
                          (roomStates s)\<rparr>)
      in snd (setTimeout (GraceTimer uname rm) s1))"

definition graceTimerFired :: "string \<Rightarrow> string \<Rightarrow> state \<Rightarrow> state \<times> emit list" where
  "graceTimerFired uname rm s =
     (let roomToDisconnectFrom = map_of (roomStates s) rm
      in if \<not> (case roomToDisconnectFrom of
                  None \<Rightarrow> False
                | Some r \<Rightarrow> list_ex (\<lambda>u. seatUsername u = uname) (roomUsers r)) then
           (let s1 = s\<lparr>connectedUsers := filter (\<lambda>(id, u). username u \<noteq> uname) (connectedUsers s)\<rparr>
            in case roomToDisconnectFrom of
                 None \<Rightarrow> (s1, [])
               | Some r \<Rightarrow>
                   (cleanupGame rm s1,
                    (case roomUsers r of
                       [] \<Rightarrow> []
                     | u # _ \<Rightarrow> [(ToRoom rm, GameOver (Str (seatUsername u)))])))
         else (s, []))"

text \<open>
  \<^verbatim>\<open>handleDisconnecting\<close> (lines 383 to 394). \<open>rooms\<close> is \<^verbatim>\<open>socket.rooms\<close>, which the
  transport keeps: the rooms the socket has joined, its own id among them.
\<close>

fun handleDisconnecting :: "string \<Rightarrow> string list \<Rightarrow> state \<Rightarrow> state \<times> emit list" where
  "handleDisconnecting socket [] s = (s, [])"
| "handleDisconnecting socket (rm # rooms) s =
     (case map_of (connectedUsers s) socket of
        None \<Rightarrow> handleDisconnecting socket rooms s
      | Some u \<Rightarrow>
          (let (s1, es) = handleDisconnecting socket rooms (markUserForReconnection (username u) rm s)
           in (s1, (ToRoom rm, RoomDisconnect (username u @ '' disconnected from '' @ rm)) # es)))"

section \<open>The event loop\<close>

text \<open>A pending timer fires: its handle leaves the pending set and its closure runs.\<close>

definition fireTimer :: "nat \<Rightarrow> state \<Rightarrow> result" where
  "fireTimer h s =
     (case map_of (timers s) h of
        None \<Rightarrow> Inr (s, [])
      | Some t \<Rightarrow>
          (let s1 = s\<lparr>timers := AList.delete h (timers s)\<rparr>
           in case t of
                RoundTimer ROOM_NAME \<Rightarrow> roundTimerFired ROOM_NAME s1
              | GraceTimer uname rm \<Rightarrow> Inr (graceTimerFired uname rm s1)))"

datatype input =
    ConnectToRoom string string string
  | PlayerChoice string jsval string jsval
  | Disconnecting string "string list"
  | TimerFires nat

fun step :: "input \<Rightarrow> state \<Rightarrow> result" where
  "step (ConnectToRoom socket uname rm) s = handleConnectToRoom socket uname rm s"
| "step (PlayerChoice socket uname rm choice) s = handlePlayerChoice (Some socket) uname rm choice s"
| "step (Disconnecting socket rooms) s = Inr (handleDisconnecting socket rooms s)"
| "step (TimerFires h) s = fireTimer h s"

text \<open>A sequence of inputs, with everything emitted along the way; a throw ends the run.\<close>

fun run :: "input list \<Rightarrow> state \<Rightarrow> result" where
  "run [] s = Inr (s, [])"
| "run (i # is) s =
     (case step i s of
        Inl e \<Rightarrow> Inl e
      | Inr (s1, es) \<Rightarrow>
          (case run is s1 of
             Inl e \<Rightarrow> Inl e
           | Inr (s2, es') \<Rightarrow> Inr (s2, es @ es')))"

section \<open>Scenario states\<close>

text \<open>
  The states the scenarios below start from, written out; the lemmas of the last section
  show that the handlers produce them from \<open>init\<close>. \<open>seated\<close> is the table after
  \<^verbatim>\<open>alice\<close> and \<^verbatim>\<open>bob\<close> have joined room \<^verbatim>\<open>abcde\<close> on sockets \<^verbatim>\<open>s1\<close> and \<^verbatim>\<open>s2\<close>.
\<close>

definition joins :: "input list" where
  "joins = [ConnectToRoom ''s1'' ''alice'' ''abcde'', ConnectToRoom ''s2'' ''bob'' ''abcde'']"

definition seatedRoom :: roomState where
  "seatedRoom =
     \<lparr>roomUsers = [\<lparr>seatUsername = ''alice'', seatSocketId = ''s1''\<rparr>,
                  \<lparr>seatUsername = ''bob'', seatSocketId = ''s2''\<rparr>],
      scores = [(''alice'', Num 0), (''bob'', Num 0)], roundNo = 1, choices = [],
      roundTimeout = Some 0\<rparr>"

definition registry :: "user obj" where
  "registry =
     [(''s1'', \<lparr>username = ''alice'', room = ''abcde'', socketId = ''s1''\<rparr>),
      (''s2'', \<lparr>username = ''bob'', room = ''abcde'', socketId = ''s2''\<rparr>)]"

definition seated :: state where
  "seated =
     \<lparr>connectedUsers = registry, roomStates = [(''room:abcde'', seatedRoom)],
      timers = [(0, RoundTimer ''room:abcde'')], nextTimer = 1\<rparr>"


text \<open>Round 5 at four points each, both choices in and equal.\<close>

definition matchPoint :: roomState where
  "matchPoint =
     seatedRoom\<lparr>scores := [(''alice'', Num 4), (''bob'', Num 4)], roundNo := 5,
                choices := [(''alice'', Str ''rock''), (''bob'', Str ''rock'')]\<rparr>"

text \<open>
  \<^verbatim>\<open>bob\<close>'s socket has disconnected from \<open>seated\<close>, its \<^verbatim>\<open>socket.rooms\<close> holding its
  own id and the game room; then \<^verbatim>\<open>bob\<close> has joined again on socket \<^verbatim>\<open>s3\<close>.
\<close>

definition bobGone :: state where
  "bobGone =
     \<lparr>connectedUsers = registry,
      roomStates =
        [(''room:abcde'',
          seatedRoom\<lparr>roomUsers := [\<lparr>seatUsername = ''alice'', seatSocketId = ''s1''\<rparr>]\<rparr>)],
      timers =
        [(0, RoundTimer ''room:abcde''), (1, GraceTimer ''bob'' ''s2''),
         (2, GraceTimer ''bob'' ''room:abcde'')],
      nextTimer = 3\<rparr>"

definition bobBack :: state where
  "bobBack =
     \<lparr>connectedUsers =
        [(''s1'', \<lparr>username = ''alice'', room = ''abcde'', socketId = ''s1''\<rparr>),
         (''s3'', \<lparr>username = ''bob'', room = ''abcde'', socketId = ''s3''\<rparr>)],
      roomStates =
        [(''room:abcde'',
          seatedRoom\<lparr>roomUsers := [\<lparr>seatUsername = ''alice'', seatSocketId = ''s1''\<rparr>,
                                    \<lparr>seatUsername = ''bob'', seatSocketId = ''s3''\<rparr>],
                     roundTimeout := Some 3\<rparr>)],
      timers =
        [(1, GraceTimer ''bob'' ''s2''), (2, GraceTimer ''bob'' ''room:abcde''),
         (3, RoundTimer ''room:abcde'')],
      nextTimer = 4\<rparr>"

text \<open>The state a run ends in, if no handler threw.\<close>

definition endState :: "result \<Rightarrow> state option" where
  "endState r = (case r of Inl _ \<Rightarrow> None | Inr (s, _) \<Rightarrow> Some s)"

text \<open>
  \<^verbatim>\<open>alice\<close> has won round 1 with rock against scissors and her socket has disconnected;
  then she has joined again on socket \<^verbatim>\<open>s3\<close>.
\<close>

definition aliceAway :: state where
  "aliceAway =
     \<lparr>connectedUsers = registry,
      roomStates =
        [(''room:abcde'',
          \<lparr>roomUsers = [\<lparr>seatUsername = ''bob'', seatSocketId = ''s2''\<rparr>],
           scores = [(''alice'', Num 1), (''bob'', Num 0)], roundNo = 2, choices = [],
           roundTimeout = Some 1\<rparr>)],
      timers =
        [(1, RoundTimer ''room:abcde''), (2, GraceTimer ''alice'' ''s1''),
         (3, GraceTimer ''alice'' ''room:abcde'')],
      nextTimer = 4\<rparr>"

definition aliceReturned :: state where
  "aliceReturned =
     \<lparr>connectedUsers =
        [(''s2'', \<lparr>username = ''bob'', room = ''abcde'', socketId = ''s2''\<rparr>),
         (''s3'', \<lparr>username = ''alice'', room = ''abcde'', socketId = ''s3''\<rparr>)],
      roomStates =
        [(''room:abcde'',
          \<lparr>roomUsers = [\<lparr>seatUsername = ''bob'', seatSocketId = ''s2''\<rparr>,
                        \<lparr>seatUsername = ''alice'', seatSocketId = ''s3''\<rparr>],
           scores = [(''alice'', Num 0), (''bob'', Num 0)], roundNo = 2, choices = [],
           roundTimeout = Some 4\<rparr>)],
      timers =
        [(2, GraceTimer ''alice'' ''s1''), (3, GraceTimer ''alice'' ''room:abcde''),
         (4, RoundTimer ''room:abcde'')],
      nextTimer = 5\<rparr>"

text \<open>
  Both sockets have disconnected from \<open>seated\<close>, \<^verbatim>\<open>bob\<close>'s first. In \<open>tornDown\<close> the
  grace timer 2 of \<^verbatim>\<open>bob\<close> has fired since and has torn the room down; in \<open>newGame\<close>
  \<^verbatim>\<open>carol\<close> and \<^verbatim>\<open>dave\<close> have then joined a room of the same code.
\<close>

definition bothGone :: state where
  "bothGone =
     \<lparr>connectedUsers = registry,
      roomStates = [(''room:abcde'', seatedRoom\<lparr>roomUsers := []\<rparr>)],
      timers =
        [(0, RoundTimer ''room:abcde''), (1, GraceTimer ''bob'' ''s2''),
         (2, GraceTimer ''bob'' ''room:abcde''), (3, GraceTimer ''alice'' ''s1''),
         (4, GraceTimer ''alice'' ''room:abcde'')],
      nextTimer = 5\<rparr>"

definition tornDown :: state where
  "tornDown =
     \<lparr>connectedUsers = [(''s1'', \<lparr>username = ''alice'', room = ''abcde'', socketId = ''s1''\<rparr>)],
      roomStates = [],
      timers =
        [(1, GraceTimer ''bob'' ''s2''), (3, GraceTimer ''alice'' ''s1''),
         (4, GraceTimer ''alice'' ''room:abcde'')],
      nextTimer = 5\<rparr>"

definition newGame :: state where
  "newGame =
     \<lparr>connectedUsers =
        [(''s1'', \<lparr>username = ''alice'', room = ''abcde'', socketId = ''s1''\<rparr>),
         (''s3'', \<lparr>username = ''carol'', room = ''abcde'', socketId = ''s3''\<rparr>),
         (''s4'', \<lparr>username = ''dave'', room = ''abcde'', socketId = ''s4''\<rparr>)],
      roomStates =
        [(''room:abcde'',
          \<lparr>roomUsers = [\<lparr>seatUsername = ''carol'', seatSocketId = ''s3''\<rparr>,
                        \<lparr>seatUsername = ''dave'', seatSocketId = ''s4''\<rparr>],
           scores = [(''carol'', Num 0), (''dave'', Num 0)], roundNo = 1, choices = [],
           roundTimeout = Some 5\<rparr>)],
      timers =
        [(1, GraceTimer ''bob'' ''s2''), (3, GraceTimer ''alice'' ''s1''),
         (4, GraceTimer ''alice'' ''room:abcde''), (5, RoundTimer ''room:abcde'')],
      nextTimer = 6\<rparr>"


section \<open>Reachable states and their timers\<close>

text \<open>The states the event loop can be in: \<open>init\<close>, and what a handler returns from one.\<close>

inductive reachable :: "state \<Rightarrow> bool" where
  reachable_init: "reachable init"
| reachable_step: "reachable s \<Longrightarrow> step i s = Inr (s', es) \<Longrightarrow> reachable s'"

text \<open>
  How the pending timers and the stored handles hang together: handles are pairwise
  different and below the counter; a handle stored in a room is below the counter and, if
  still pending, is that room's round timer; a pending round timer is the one stored in
  its room, which exists.
\<close>

definition timersOk :: "state \<Rightarrow> bool" where
  "timersOk s =
     (distinct (map fst (timers s))
      \<and> (\<forall>h t. (h, t) \<in> set (timers s) \<longrightarrow> h < nextTimer s)
      \<and> (\<forall>r rs h. map_of (roomStates s) r = Some rs \<and> roundTimeout rs = Some h \<longrightarrow>
            h < nextTimer s \<and> (\<forall>t. (h, t) \<in> set (timers s) \<longrightarrow> t = RoundTimer r))
      \<and> (\<forall>h r. (h, RoundTimer r) \<in> set (timers s) \<longrightarrow>
            (\<exists>rs. map_of (roomStates s) r = Some rs \<and> roundTimeout rs = Some h)))"

section \<open>The revision in \<^verbatim>\<open>src/socket.js\<close>\<close>

text \<open>
  \<^verbatim>\<open>src/socket.js\<close> pairs sockets into rooms and has no game: a registry entry is
  \<^verbatim>\<open>{ username, room }\<close> and a room is its array \<^verbatim>\<open>connected_users\<close> of socket ids.
\<close>

record lobbyUser =
  lobbyUsername :: string
  lobbyRoom :: string

record lobby =
  lobbyUsers :: "lobbyUser obj"
  lobbyRooms :: "string list obj"

text \<open>\<^verbatim>\<open>handleConnectToRoom\<close> of \<^verbatim>\<open>src/socket.js\<close> (lines 19 to 47).\<close>

definition handleConnectToRoom_socket_js :: "string \<Rightarrow> string \<Rightarrow> string \<Rightarrow> lobby \<Rightarrow> lobby \<times> emit list" where
  "handleConnectToRoom_socket_js socket uname rm s =
     (if uname = [] \<or> length rm \<le> 4 then
        (s, [(ToSocket socket, Exception ''something went wrong'')])
      else
        (let ROOM_NAME = ''room:'' @ rm
         in if map_of (lobbyUsers s) socket \<noteq> None then
              (s, [(ToSocket socket, Exception ''already in a room'')])
            else if (case map_of (lobbyRooms s) ROOM_NAME of
                       None \<Rightarrow> False
                     | Some connected_users \<Rightarrow> length connected_users \<ge> 2) then
              (s, [(ToSocket socket, Exception ''room full'')])
            else
              (let connected_users =
                     (case map_of (lobbyRooms s) ROOM_NAME of None \<Rightarrow> [] | Some c \<Rightarrow> c) @ [socket];
                   s1 = s\<lparr>lobbyUsers :=
                            AList.update socket \<lparr>lobbyUsername = uname, lobbyRoom = rm\<rparr> (lobbyUsers s),
                          lobbyRooms := AList.update ROOM_NAME connected_users (lobbyRooms s)\<rparr>
               in (s1,
                   (ToRoom ROOM_NAME, RoomJoin (uname @ '' joined '' @ ROOM_NAME)) #
                   (if length connected_users = 2
                    then [(ToRoom ROOM_NAME, RoomReady ''players are ready, waiting for choice'')]
                    else [])))))"

text \<open>\<^verbatim>\<open>removeUserFromRoom\<close> (lines 63 to 70) and \<^verbatim>\<open>handleDisconnecting\<close> (lines 49 to 61).\<close>

definition removeUserFromRoom :: "string \<Rightarrow> string \<Rightarrow> lobby \<Rightarrow> lobby" where
  "removeUserFromRoom sid rm s =
     (case map_of (lobbyRooms s) rm of
        None \<Rightarrow> s
      | Some connected_users \<Rightarrow>
          (let remaining = filter (\<lambda>id. id \<noteq> sid) connected_users
           in if length remaining = 0 then s\<lparr>lobbyRooms := AList.delete rm (lobbyRooms s)\<rparr>
              else s\<lparr>lobbyRooms := AList.update rm remaining (lobbyRooms s)\<rparr>))"

fun leaveRooms :: "string \<Rightarrow> string list \<Rightarrow> lobby \<Rightarrow> lobby \<times> emit list" where
  "leaveRooms socket [] s = (s, [])"
| "leaveRooms socket (rm # rooms) s =
     (case map_of (lobbyUsers s) socket of
        None \<Rightarrow> leaveRooms socket rooms s
      | Some u \<Rightarrow>
          (let (s1, es) = leaveRooms socket rooms (removeUserFromRoom socket rm s)
           in (s1, (ToRoom rm, RoomDisconnect (lobbyUsername u @ '' left '' @ rm)) # es)))"

definition handleDisconnecting_socket_js :: "string \<Rightarrow> string list \<Rightarrow> lobby \<Rightarrow> lobby \<times> emit list" where
  "handleDisconnecting_socket_js socket rooms s =
     (let (s1, es) = leaveRooms socket rooms s
      in (s1\<lparr>lobbyUsers := AList.delete socket (lobbyUsers s1)\<rparr>, es))"

text \<open>No room of the lobby holds more than two sockets.\<close>

definition roomsOfTwo :: "lobby \<Rightarrow> bool" where
  "roomsOfTwo s = (\<forall>r c. map_of (lobbyRooms s) r = Some c \<longrightarrow> length c \<le> 2)"

section \<open>The revision with a pause flag\<close>

text \<open>
  Lines 1 to 214 of \<^verbatim>\<open>src/unnamed/part_000\<close> are another revision of the session manager:
  a room has a flag \<^verbatim>\<open>paused\<close>, the round timer is an interval, and joining and
  disconnecting differ from the revision above in the places the claims C5 and C6 are
  about. Those two handlers are modelled here with what they call; \<open>RoundTimer\<close> stands
  for the interval of \<^verbatim>\<open>startNextRound\<close>, whose ticks are not modelled.
\<close>

record pausedRoom = roomState +
  paused :: bool

record pausedState =
  connectedUsersP :: "user obj"
  roomStatesP :: "pausedRoom obj"
  timersP :: "(nat \<times> timer) list"
  nextTimerP :: nat

type_synonym pausedResult = "error + pausedState \<times> emit list"

definition clearInterval :: "nat option \<Rightarrow> pausedState \<Rightarrow> pausedState" where
  "clearInterval h s =
     (case h of None \<Rightarrow> s | Some n \<Rightarrow> s\<lparr>timersP := AList.delete n (timersP s)\<rparr>)"

text \<open>\<^verbatim>\<open>startNextRound\<close> (lines 134 to 157): nothing happens while the room is paused.\<close>

definition startNextRound_paused :: "string \<Rightarrow> pausedState \<Rightarrow> pausedResult" where
  "startNextRound_paused ROOM_NAME s =
     (case map_of (roomStatesP s) ROOM_NAME of
        None \<Rightarrow> Inl TypeError
      | Some roomState \<Rightarrow>
          if paused roomState then Inr (s, [])
          else
            (let s1 = clearInterval (roundTimeout roomState) s;
                 h = nextTimerP s1;
                 s2 = s1\<lparr>timersP := timersP s1 @ [(h, RoundTimer ROOM_NAME)], nextTimerP := Suc h\<rparr>
             in Inr (s2\<lparr>roomStatesP :=
                          AList.update ROOM_NAME (roomState\<lparr>roundTimeout := Some h\<rparr>) (roomStatesP s2)\<rparr>,
                     [])))"

text \<open>
  Lines 37 to 75 of \<^verbatim>\<open>handleConnectToRoom\<close>. A reconnection join unpauses the room, which
  throws when the room is gone; a score that is there and not 0 or \<^verbatim>\<open>NaN\<close> is kept.
\<close>

definition joinRoom_paused :: "string \<Rightarrow> string \<Rightarrow> string \<Rightarrow> pausedState \<Rightarrow> pausedResult" where
  "joinRoom_paused socket uname rm s =
     (let ROOM_NAME = ''room:'' @ rm;
          isReconnecting =
            list_ex (\<lambda>u. username u = uname \<and> room u = rm) (map snd (connectedUsersP s));
          oldSocketId =
            map_option fst (find (\<lambda>(id, u). username u = uname) (connectedUsersP s));
          entry = \<lparr>username = uname, room = rm, socketId = socket\<rparr>;
          cu = (if isReconnecting then
                  AList.update socket entry
                    (case oldSocketId of
                       None \<Rightarrow> connectedUsersP s
                     | Some old \<Rightarrow>
                         if old \<noteq> [] then AList.delete old (connectedUsersP s)
                         else connectedUsersP s)
                else AList.update socket entry (connectedUsersP s));
          es1 = (if isReconnecting
                 then [(ToSocket socket, RoomReconnect (uname @ '' rejoined '' @ ROOM_NAME))]
                 else [])
      in if isReconnecting \<and> map_of (roomStatesP s) ROOM_NAME = None then Inl TypeError
         else
           (let roomState1 =
                  (case map_of (roomStatesP s) ROOM_NAME of
                     None \<Rightarrow>
                       \<lparr>roomUsers = [\<lparr>seatUsername = uname, seatSocketId = socket\<rparr>],
                        scores = [(uname, Num 0)], roundNo = 1, choices = [],
                        roundTimeout = None, paused = False\<rparr>
                   | Some roomState \<Rightarrow>
                       roomState\<lparr>roomUsers :=
                                   roomUsers roomState @ [\<lparr>seatUsername = uname, seatSocketId = socket\<rparr>],
                                 scores :=
                                   (case map_of (scores roomState) uname of
                                      Some (Num n) \<Rightarrow>
                                        if n = 0 then AList.update uname (Num 0) (scores roomState)
                                        else scores roomState
                                    | _ \<Rightarrow> AList.update uname (Num 0) (scores roomState)),
                                 paused := (if isReconnecting then False else paused roomState)\<rparr>);
                s1 = s\<lparr>connectedUsersP := cu,
                       roomStatesP := AList.update ROOM_NAME roomState1 (roomStatesP s)\<rparr>;
                es2 = es1 @ [(ToRoom ROOM_NAME, RoomJoin (uname @ '' joined '' @ ROOM_NAME))]
            in if length (roomUsers roomState1) = 2 then
                 (case startNextRound_paused ROOM_NAME s1 of
                    Inl e \<Rightarrow> Inl e
                  | Inr (s2, es3) \<Rightarrow>
                      Inr (s2, es2 @ (ToRoom ROOM_NAME, RoomReady ''players are ready, waiting for choice'') # es3))
               else Inr (s1, es2)))"

text \<open>Lines 22 to 35: the first seat is read behind a guard here.\<close>

definition handleConnectToRoom_paused :: "string \<Rightarrow> string \<Rightarrow> string \<Rightarrow> pausedState \<Rightarrow> pausedResult" where
  "handleConnectToRoom_paused socket uname rm s =
     (if uname = [] \<or> rm = [] \<or> length rm \<le> 4 then
        Inr (s, [(ToSocket socket, Exception ''invalid room or username'')])
      else
        (case map_of (roomStatesP s) (''room:'' @ rm) of
           None \<Rightarrow> joinRoom_paused socket uname rm s
         | Some roomState \<Rightarrow>
             (case roomUsers roomState of
                [] \<Rightarrow> joinRoom_paused socket uname rm s
              | u # _ \<Rightarrow>
                  if seatSocketId u = socket then Inr (s, []) else joinRoom_paused socket uname rm s)))"

text \<open>
  The body of the loop of \<^verbatim>\<open>handleDisconnecting\<close> (lines 164 to 173) for one room, with
  the synchronous part of \<^verbatim>\<open>markUserForReconnection\<close> (lines 178 to 184), and the loop.
\<close>

definition disconnectFrom_paused :: "string \<Rightarrow> string \<Rightarrow> pausedState \<Rightarrow> pausedState \<times> emit list" where
  "disconnectFrom_paused socket rm s =
     (case map_of (connectedUsersP s) socket of
        None \<Rightarrow> (s, [])
      | Some u \<Rightarrow>
          (case map_of (roomStatesP s) rm of
             None \<Rightarrow> (s, [(ToRoom rm, RoomDisconnect (username u @ '' disconnected from '' @ rm))])
           | Some roomState \<Rightarrow>
               (let s1 = clearInterval (roundTimeout roomState) s;
                    roomState1 =
                      roomState\<lparr>paused := True,
                                roomUsers := filter (\<lambda>x. seatUsername x \<noteq> username u) (roomUsers roomState)\<rparr>;
                    s2 = s1\<lparr>roomStatesP := AList.update rm roomState1 (roomStatesP s1)\<rparr>
                in (s2\<lparr>timersP := timersP s2 @ [(nextTimerP s2, GraceTimer (username u) rm)],
                       nextTimerP := Suc (nextTimerP s2)\<rparr>,
                    [(ToRoom rm, RoomDisconnect (username u @ '' disconnected from '' @ rm))]))))"

fun handleDisconnecting_paused :: "string \<Rightarrow> string list \<Rightarrow> pausedState \<Rightarrow> pausedState \<times> emit list" where
  "handleDisconnecting_paused socket [] s = (s, [])"
| "handleDisconnecting_paused socket (rm # rooms) s =
     (let (s1, es1) = disconnectFrom_paused socket rm s;
          (s2, es2) = handleDisconnecting_paused socket rooms s1
      in (s2, es1 @ es2))"

section \<open>Association lists and single steps\<close>

lemma map_of_update_same: "map_of (AList.update k v al) k = Some v"
  by (simp add: update_conv')

lemma map_of_update_other: "k' \<noteq> k \<Longrightarrow> map_of (AList.update k v al) k' = map_of al k'"
  by (simp add: update_conv')

lemma map_of_delete_same: "map_of (AList.delete k al) k = None"
  by (simp add: delete_conv')




lemma getProp_winMap_Str:
  "getProp winMap (Str a) =
     (if a = ''rock'' then Str ''scissors''
      else if a = ''paper'' then Str ''rock''
      else if a = ''scissors'' then Str ''paper'' else Undefined)"
  by (simp add: getProp_def winMap_def)

lemma validChoice_simps:
  "validChoice (Str ''rock'')" "validChoice (Str ''paper'')" "validChoice (Str ''scissors'')"
  "\<not> validChoice Null" "\<not> validChoice Undefined"
  by (simp_all add: validChoice_def)

lemma startNextRound_Some:
  "map_of (roomStates s) rm = Some rs \<Longrightarrow>
   startNextRound rm s =
     Inr ((clearTimeout (roundTimeout rs) s)
            \<lparr>timers := timers (clearTimeout (roundTimeout rs) s) @ [(nextTimer s, RoundTimer rm)],
             nextTimer := Suc (nextTimer s),
             roomStates := AList.update rm (rs\<lparr>roundTimeout := Some (nextTimer s)\<rparr>) (roomStates s)\<rparr>,
          [(ToRoom rm, StartRound (roundNo rs) 20)])"
  by (simp add: startNextRound_def setTimeout_def clearTimeout_def CHOICE_TIME_def
      split: option.splits)

lemma gameWinner_cases:
  "gameWinner sc p1 p2 =
     (if isFive (map_of sc (propKey p1)) \<and> isFive (map_of sc (propKey p2)) then Some (Str ''tie'')
      else if isFive (map_of sc (propKey p1)) then Some p1
      else if isFive (map_of sc (propKey p2)) then Some p2
      else None)"
  by (auto simp: gameWinner_def isFive_def sameScore_def Let_def split: option.splits jsnum.splits)

lemma cleanupGame_room_gone: "map_of (roomStates (cleanupGame rm s)) rm = None"
  by (simp add: cleanupGame_def clearTimeout_def map_of_delete_same split: option.splits)

lemma cleanupGame_registry: "connectedUsers (cleanupGame rm s) = connectedUsers s"
  by (simp add: cleanupGame_def clearTimeout_def split: option.splits)

lemma cleanupGame_absent: "map_of (roomStates s) rm = None \<Longrightarrow> cleanupGame rm s = s"
  by (simp add: cleanupGame_def)

lemma resolveRound_shape:
  assumes "players rs = (p1, p2)"
  shows "\<exists>s' rest.
           resolveRound rm rs s =
             Inr (s', (ToRoom rm,
                       RoundResult (roundNo rs) (choices rs)
                         (determineRoundWinner (getProp (choices rs) p1) (getProp (choices rs) p2))
                         (updateScores
                            (determineRoundWinner (getProp (choices rs) p1) (getProp (choices rs) p2))
                            p1 p2 (scores rs))) # rest)"
  using assms
  by (simp add: resolveRound_def Let_def startNextRound_Some map_of_update_same
      split: option.splits)

lemma handlePlayerChoice_timer:
  assumes "map_of (roomStates s) rm = Some rs"
  shows "handlePlayerChoice None Null rm Null s =
     (if length (map fst (choices rs)) = 2 then resolveRound rm rs s
      else Inr (s\<lparr>roomStates := AList.update rm rs (roomStates s)\<rparr>, []))"
  using assms by (simp add: handlePlayerChoice_def)

lemma fireTimer_round:
  assumes "map_of (timers s) h = Some (RoundTimer rm)" and "map_of (roomStates s) rm = Some rs"
  shows "fireTimer h s =
     handlePlayerChoice None Null rm Null
       (s\<lparr>timers := AList.delete h (timers s),
          roomStates := AList.update rm (rs\<lparr>choices := defaultChoices rs\<rparr>) (roomStates s)\<rparr>)"
  using assms by (simp add: fireTimer_def roundTimerFired_def)

text \<open>The two joins lead from \<open>init\<close> to \<open>seated\<close>: both get the ready event and round 1 starts.\<close>

lemma joins_seated:
  "run joins init =
     Inr (seated,
          [(ToRoom ''room:abcde'', RoomJoin ''alice joined room:abcde''),
           (ToRoom ''room:abcde'', RoomJoin ''bob joined room:abcde''),
           (ToRoom ''room:abcde'', RoomReady ''players are ready, waiting for choice''),
           (ToRoom ''room:abcde'', StartRound 1 20)])"
  by (simp add: joins_def init_def seated_def seatedRoom_def registry_def handleConnectToRoom_def
      joinRoom_def startNextRound_def setTimeout_def clearTimeout_def CHOICE_TIME_def Let_def)

lemma seated_bobGone:
  "step (Disconnecting ''s2'' [''s2'', ''room:abcde'']) seated =
     Inr (bobGone,
          [(ToRoom ''s2'', RoomDisconnect ''bob disconnected from s2''),
           (ToRoom ''room:abcde'', RoomDisconnect ''bob disconnected from room:abcde'')])"
  by (simp add: seated_def seatedRoom_def registry_def bobGone_def markUserForReconnection_def
      setTimeout_def Let_def)

lemma bobGone_bobBack:
  "step (ConnectToRoom ''s3'' ''bob'' ''abcde'') bobGone =
     Inr (bobBack,
          [(ToSocket ''s3'', RoomReconnect ''bob rejoined room:abcde''),
           (ToRoom ''room:abcde'', RoomJoin ''bob joined room:abcde''),
           (ToRoom ''room:abcde'', RoomReady ''players are ready, waiting for choice''),
           (ToRoom ''room:abcde'', StartRound 1 20)])"
  by (simp add: seatedRoom_def registry_def bobGone_def bobBack_def handleConnectToRoom_def
      joinRoom_def startNextRound_def setTimeout_def clearTimeout_def CHOICE_TIME_def Let_def
      AList.delete_eq)

text \<open>
  A player-choice that names the room by the code given on joining finds no room: the
  table's key is \<^verbatim>\<open>room:\<close> followed by the code.
\<close>

lemma bare_room_code_rejected:
  "step (PlayerChoice ''s1'' (Str ''alice'') ''abcde'' (Str ''rock'')) seated =
     Inr (seated, [(ToSocket ''s1'', Exception ''invalid choice or room'')])"
  by (simp add: seated_def handlePlayerChoice_def)

section \<open>The round resolver: properties\<close>

text \<open>
  C9. On the three valid choices the resolver follows the beats-relation: rock beats
  scissors, scissors beats paper, paper beats rock, whichever side holds the winning
  choice (\<open>player1\<close> is the first argument's side, \<open>player2\<close> the second's), and the
  result is \<open>tie\<close> on the three equal pairs and on no other pair.
\<close>

theorem determineRoundWinner_beats:
  "determineRoundWinner (Str ''rock'') (Str ''scissors'') = ''player1''
   \<and> determineRoundWinner (Str ''scissors'') (Str ''rock'') = ''player2''
   \<and> determineRoundWinner (Str ''scissors'') (Str ''paper'') = ''player1''
   \<and> determineRoundWinner (Str ''paper'') (Str ''scissors'') = ''player2''
   \<and> determineRoundWinner (Str ''paper'') (Str ''rock'') = ''player1''
   \<and> determineRoundWinner (Str ''rock'') (Str ''paper'') = ''player2''
   \<and> determineRoundWinner (Str ''rock'') (Str ''rock'') = ''tie''
   \<and> determineRoundWinner (Str ''paper'') (Str ''paper'') = ''tie''
   \<and> determineRoundWinner (Str ''scissors'') (Str ''scissors'') = ''tie''"
  by (simp add: determineRoundWinner_def getProp_winMap_Str)

text \<open>
  C10. On any two strings the resolver returns one of its three results, and it returns
  \<open>tie\<close> exactly when the strings are equal: an unequal pair is a win for one side, also
  when a string is not a valid choice. (An inherited property of \<^verbatim>\<open>winMap\<close> is an
  object, never equal to a string, so leaving those out changes nothing here. The
  function compares and reads a property; on strings neither can throw.)
\<close>

theorem determineRoundWinner_tie_iff:
  "(determineRoundWinner (Str a) (Str b) = ''tie'') = (a = b)
   \<and> determineRoundWinner (Str a) (Str b) \<in> {''tie'', ''player1'', ''player2''}"
  by (simp add: determineRoundWinner_def)

section \<open>Choice submission and round resolution\<close>

text \<open>
  C4. The termination check after a round's scoreboard update. With \<open>sc\<close> the updated
  scoreboard (the one the round-result carries): when both players stand at 5 the game
  is over with winner \<open>tie\<close>, checked before either single score; when exactly one player
  stands at 5 the game is over with that player as winner; in both cases the room is
  torn down. When neither stands at 5 no game-over is emitted, the room stays and the
  next round starts.
\<close>

theorem resolveRound_game_over:
  assumes "players rs = (p1, p2)"
  shows "let res = determineRoundWinner (getProp (choices rs) p1) (getProp (choices rs) p2);
             sc = updateScores res p1 p2 (scores rs)
         in \<exists>s' rest.
              resolveRound rm rs s =
                Inr (s', (ToRoom rm, RoundResult (roundNo rs) (choices rs) res sc) # rest)
              \<and> (if isFive (map_of sc (propKey p1)) \<and> isFive (map_of sc (propKey p2))
                  then rest = [(ToRoom rm, GameOver (Str ''tie''))]
                       \<and> map_of (roomStates s') rm = None
                  else if isFive (map_of sc (propKey p1))
                  then rest = [(ToRoom rm, GameOver p1)] \<and> map_of (roomStates s') rm = None
                  else if isFive (map_of sc (propKey p2))
                  then rest = [(ToRoom rm, GameOver p2)] \<and> map_of (roomStates s') rm = None
                  else rest = [(ToRoom rm, StartRound (roundNo rs + 1) 20)]
                       \<and> map_of (roomStates s') rm \<noteq> None)"
  using assms
  by (simp add: resolveRound_def Let_def gameWinner_cases cleanupGame_room_gone
      map_of_update_same startNextRound_Some)

text \<open>
  At four points each, a tie in round 5 takes both players to 5 and the game ends as a
  tie, not as a win of the first player.
\<close>

theorem resolveRound_game_over_witness:
  "players matchPoint = (Str ''alice'', Str ''bob'')
   \<and> (\<exists>s' rest.
         resolveRound ''room:abcde'' matchPoint seated =
           Inr (s', (ToRoom ''room:abcde'',
                     RoundResult 5 [(''alice'', Str ''rock''), (''bob'', Str ''rock'')] ''tie''
                       [(''alice'', Num 5), (''bob'', Num 5)]) # rest)
         \<and> rest = [(ToRoom ''room:abcde'', GameOver (Str ''tie''))]
         \<and> map_of (roomStates s') ''room:abcde'' = None)"
proof -
  have p: "players matchPoint = (Str ''alice'', Str ''bob'')"
    by (simp add: players_def matchPoint_def seatedRoom_def)
  show ?thesis
    using p resolveRound_game_over [OF p, of "''room:abcde''" seated]
    by (simp add: Let_def matchPoint_def seatedRoom_def determineRoundWinner_def getProp_def
        updateScores_def increment_def isFive_def)
qed

text \<open>
  C1. A room \<open>rm\<close> seats \<open>a\<close> and \<open>b\<close> (in either order), two usernames that name no
  member of \<^verbatim>\<open>Object.prototype\<close>; nothing is chosen yet and both scores are 0. Then \<open>a\<close>'s rock is recorded with nothing emitted, and \<open>b\<close>'s scissors
  resolves the round: the room is sent the round-result of the current round, whose
  winning side is the seat of \<open>a\<close> (\<open>player1\<close> when \<open>a\<close> is seated first, \<open>player2\<close>
  otherwise) and whose scoreboard is the old one with \<open>a\<close> at 1, followed by the start of
  the next round. Neither submitter is sent an exception. The events name the room by
  its key in the room table, which is \<^verbatim>\<open>room:\<close> followed by the code given on joining.
\<close>

theorem rock_beats_scissors:
  assumes room: "map_of (roomStates s) rm = Some rs"
      and seats: "map seatUsername (roomUsers rs) = [p, q]"
      and pq: "(p, q) = (a, b) \<or> (p, q) = (b, a)"
      and ab: "a \<noteq> b" "a \<noteq> []" "b \<noteq> []"
      and ordinary: "ordinaryKey a" "ordinaryKey b"
      and fresh: "choices rs = []"
      and zero: "map_of (scores rs) a = Some (Num 0)" "map_of (scores rs) b = Some (Num 0)"
  shows "\<exists>s1 s2 sc.
      handlePlayerChoice (Some sa) (Str a) rm (Str ''rock'') s = Inr (s1, [])
    \<and> handlePlayerChoice (Some sb) (Str b) rm (Str ''scissors'') s1 =
        Inr (s2, [(ToRoom rm, RoundResult (roundNo rs) [(a, Str ''rock''), (b, Str ''scissors'')]
                     (if p = a then ''player1'' else ''player2'') sc),
                  (ToRoom rm, StartRound (roundNo rs + 1) 20)])
    \<and> sc = AList.update a (Num 1) (scores rs)"
proof -
  let ?rs1 = "rs\<lparr>choices := [(a, Str ''rock'')]\<rparr>"
  let ?s1 = "s\<lparr>roomStates := AList.update rm ?rs1 (roomStates s)\<rparr>"
  let ?rs2 = "rs\<lparr>choices := [(a, Str ''rock''), (b, Str ''scissors'')]\<rparr>"
  have first: "handlePlayerChoice (Some sa) (Str a) rm (Str ''rock'') s = Inr (?s1, [])"
    using room ab fresh by (simp add: handlePlayerChoice_def validChoice_simps)
  have room1: "map_of (roomStates ?s1) rm = Some ?rs1"
    by (simp add: map_of_update_same)
  have second: "handlePlayerChoice (Some sb) (Str b) rm (Str ''scissors'') ?s1 = resolveRound rm ?rs2 ?s1"
    using room1 ab by (simp add: handlePlayerChoice_def validChoice_simps)
  have pl: "players ?rs2 = (Str p, Str q)"
    using seats by (simp add: players_def)
  have res: "determineRoundWinner (getProp (choices ?rs2) (Str p)) (getProp (choices ?rs2) (Str q))
             = (if p = a then ''player1'' else ''player2'')"
    using pq ab by (auto simp: determineRoundWinner_def getProp_def winMap_def)
  have sc: "updateScores (if p = a then ''player1'' else ''player2'') (Str p) (Str q) (scores rs)
            = AList.update a (Num 1) (scores rs)"
    using pq ab zero by (auto simp: updateScores_def increment_def)
  have nofive: "gameWinner (AList.update a (Num 1) (scores rs)) (Str p) (Str q) = None"
    using pq ab zero
    by (auto simp: gameWinner_cases isFive_def map_of_update_same map_of_update_other)
  have third: "\<exists>s2. resolveRound rm ?rs2 ?s1 =
      Inr (s2, [(ToRoom rm, RoundResult (roundNo rs) [(a, Str ''rock''), (b, Str ''scissors'')]
                     (if p = a then ''player1'' else ''player2'') (AList.update a (Num 1) (scores rs))),
                  (ToRoom rm, StartRound (roundNo rs + 1) 20)])"
    using pl res sc nofive
    by (simp add: resolveRound_def Let_def startNextRound_Some map_of_update_same)
  from first second third show ?thesis by metis
qed

text \<open>
  In \<open>seated\<close>, the state the two joins produce, \<^verbatim>\<open>alice\<close> wins round 1 as \<open>player1\<close> and
  the scores are \<^verbatim>\<open>{alice: 1, bob: 0}\<close>.
\<close>

theorem rock_beats_scissors_witness:
  "map_of (roomStates seated) ''room:abcde'' = Some seatedRoom
   \<and> map seatUsername (roomUsers seatedRoom) = [''alice'', ''bob'']
   \<and> ordinaryKey ''alice'' \<and> ordinaryKey ''bob''
   \<and> choices seatedRoom = []
   \<and> map_of (scores seatedRoom) ''alice'' = Some (Num 0)
   \<and> map_of (scores seatedRoom) ''bob'' = Some (Num 0)
   \<and> (\<exists>s1 s2.
        handlePlayerChoice (Some ''s1'') (Str ''alice'') ''room:abcde'' (Str ''rock'') seated
          = Inr (s1, [])
      \<and> handlePlayerChoice (Some ''s2'') (Str ''bob'') ''room:abcde'' (Str ''scissors'') s1
          = Inr (s2, [(ToRoom ''room:abcde'',
                       RoundResult 1 [(''alice'', Str ''rock''), (''bob'', Str ''scissors'')]
                         ''player1'' [(''alice'', Num 1), (''bob'', Num 0)]),
                      (ToRoom ''room:abcde'', StartRound 2 20)]))"
proof -
  have room: "map_of (roomStates seated) ''room:abcde'' = Some seatedRoom"
    by (simp add: seated_def)
  have seats: "map seatUsername (roomUsers seatedRoom) = [''alice'', ''bob'']"
    by (simp add: seatedRoom_def)
  have fresh: "choices seatedRoom = []"
    by (simp add: seatedRoom_def)
  have zero: "map_of (scores seatedRoom) ''alice'' = Some (Num 0)"
             "map_of (scores seatedRoom) ''bob'' = Some (Num 0)"
    by (simp_all add: seatedRoom_def)
  have upd: "AList.update ''alice'' (Num 1) (scores seatedRoom) = [(''alice'', Num 1), (''bob'', Num 0)]"
            "roundNo seatedRoom = 1"
    by (simp_all add: seatedRoom_def)
  have pq: "(''alice'', ''bob'') = (''alice'', ''bob'') \<or> (''alice'', ''bob'') = (''bob'', ''alice'')"
    by simp
  have ab: "''alice'' \<noteq> ''bob''" "''alice'' \<noteq> []" "''bob'' \<noteq> []"
    by simp_all
  have ordinary: "ordinaryKey ''alice''" "ordinaryKey ''bob''"
    by (simp_all add: ordinaryKey_def objectPrototypeNames_def)
  show ?thesis
    using rock_beats_scissors [OF room seats pq ab ordinary fresh zero, of "''s1''" "''s2''"]
    by (simp add: room seats fresh zero upd ordinary)
qed













section \<open>The reconnection grace\<close>

text \<open>
  C7. The grace timer \<open>h\<close> of username \<open>u\<close> and room \<open>rm\<close> fires. When the room exists and
  \<open>u\<close> is not seated in it, every registry entry of \<open>u\<close> is removed and the others are
  kept, the room is sent game-over with the first remaining seat as winner if a seat
  remains and nothing otherwise, and \<open>cleanupGame\<close> runs, after which the room is gone.
  When the room does not exist, the registry entries of \<open>u\<close> are removed and nothing is
  emitted (\<open>cleanupGame\<close> would change nothing). When \<open>u\<close> is seated in the room again,
  nothing is emitted and nothing changes but the timer's leaving the pending set.
\<close>

theorem grace_expiry:
  assumes timer: "map_of (timers s) h = Some (GraceTimer u rm)"
  shows "(\<forall>rs. map_of (roomStates s) rm = Some rs \<and> u \<notin> seatUsername ` set (roomUsers rs) \<longrightarrow>
            fireTimer h s =
              Inr (cleanupGame rm
                     (s\<lparr>timers := AList.delete h (timers s),
                        connectedUsers := filter (\<lambda>(id, x). username x \<noteq> u) (connectedUsers s)\<rparr>),
                   case roomUsers rs of
                     [] \<Rightarrow> []
                   | w # _ \<Rightarrow> [(ToRoom rm, GameOver (Str (seatUsername w)))])
            \<and> connectedUsers
                 (cleanupGame rm
                     (s\<lparr>timers := AList.delete h (timers s),
                        connectedUsers := filter (\<lambda>(id, x). username x \<noteq> u) (connectedUsers s)\<rparr>))
               = filter (\<lambda>(id, x). username x \<noteq> u) (connectedUsers s)
            \<and> map_of (roomStates
                 (cleanupGame rm
                     (s\<lparr>timers := AList.delete h (timers s),
                        connectedUsers := filter (\<lambda>(id, x). username x \<noteq> u) (connectedUsers s)\<rparr>)))
                 rm = None)
       \<and> (map_of (roomStates s) rm = None \<longrightarrow>
            fireTimer h s =
              Inr (s\<lparr>timers := AList.delete h (timers s),
                     connectedUsers := filter (\<lambda>(id, x). username x \<noteq> u) (connectedUsers s)\<rparr>, [])
            \<and> cleanupGame rm s = s)
       \<and> (\<forall>rs. map_of (roomStates s) rm = Some rs \<and> u \<in> seatUsername ` set (roomUsers rs) \<longrightarrow>
            fireTimer h s = Inr (s\<lparr>timers := AList.delete h (timers s)\<rparr>, []))"
  using timer
  by (auto simp: fireTimer_def graceTimerFired_def Let_def list_ex_iff cleanupGame_registry
      cleanupGame_room_gone cleanupGame_absent split: list.splits)

text \<open>
  The three cases on the states after \<^verbatim>\<open>bob\<close>'s disconnect. In \<open>bobGone\<close> timer 2 (for
  \<^verbatim>\<open>bob\<close> and the game room) makes \<^verbatim>\<open>alice\<close> the winner and removes the room and
  \<^verbatim>\<open>bob\<close>'s registry entry; timer 1 (for \<^verbatim>\<open>bob\<close> and the room named by the socket id,
  which is no game room) only removes \<^verbatim>\<open>bob\<close>'s registry entry; in \<open>bobBack\<close>, where
  \<^verbatim>\<open>bob\<close> has rejoined, timer 2 changes nothing.
\<close>

theorem grace_expiry_witness:
  "map_of (timers bobGone) 2 = Some (GraceTimer ''bob'' ''room:abcde'')
   \<and> fireTimer 2 bobGone =
       Inr (\<lparr>connectedUsers = [(''s1'', \<lparr>username = ''alice'', room = ''abcde'', socketId = ''s1''\<rparr>)],
             roomStates = [], timers = [(1, GraceTimer ''bob'' ''s2'')], nextTimer = 3\<rparr>,
            [(ToRoom ''room:abcde'', GameOver (Str ''alice''))])
   \<and> map_of (timers bobGone) 1 = Some (GraceTimer ''bob'' ''s2'')
   \<and> map_of (roomStates bobGone) ''s2'' = None
   \<and> fireTimer 1 bobGone =
       Inr (bobGone\<lparr>timers := [(0, RoundTimer ''room:abcde''), (2, GraceTimer ''bob'' ''room:abcde'')],
                    connectedUsers := [(''s1'', \<lparr>username = ''alice'', room = ''abcde'', socketId = ''s1''\<rparr>)]\<rparr>,
            [])
   \<and> map_of (timers bobBack) 2 = Some (GraceTimer ''bob'' ''room:abcde'')
   \<and> fireTimer 2 bobBack =
       Inr (bobBack\<lparr>timers := [(1, GraceTimer ''bob'' ''s2''), (3, RoundTimer ''room:abcde'')]\<rparr>, [])"
proof -
  have t2: "map_of (timers bobGone) 2 = Some (GraceTimer ''bob'' ''room:abcde'')"
   and t1: "map_of (timers bobGone) 1 = Some (GraceTimer ''bob'' ''s2'')"
    by (simp_all add: bobGone_def)
  have t2': "map_of (timers bobBack) 2 = Some (GraceTimer ''bob'' ''room:abcde'')"
    by (simp add: bobBack_def)
  show ?thesis
    using grace_expiry [OF t2] grace_expiry [OF t1] grace_expiry [OF t2']
    by (simp add: bobGone_def bobBack_def seatedRoom_def registry_def cleanupGame_def
        clearTimeout_def AList.delete_eq)
qed

section \<open>The timer invariant\<close>

lemma set_delete: "set (AList.delete h ts) = {p \<in> set ts. fst p \<noteq> h}"
  by (auto simp: AList.delete_eq)

lemma timersOkI:
  assumes "distinct (map fst (timers s))"
      and "\<And>h t. (h, t) \<in> set (timers s) \<Longrightarrow> h < nextTimer s"
      and "\<And>r rs h. map_of (roomStates s) r = Some rs \<Longrightarrow> roundTimeout rs = Some h \<Longrightarrow> h < nextTimer s"
      and "\<And>r rs h t. map_of (roomStates s) r = Some rs \<Longrightarrow> roundTimeout rs = Some h \<Longrightarrow>
             (h, t) \<in> set (timers s) \<Longrightarrow> t = RoundTimer r"
      and "\<And>h r. (h, RoundTimer r) \<in> set (timers s) \<Longrightarrow>
             \<exists>rs. map_of (roomStates s) r = Some rs \<and> roundTimeout rs = Some h"
  shows "timersOk s"
  using assms unfolding timersOk_def by blast

lemma timersOk_distinct: "timersOk s \<Longrightarrow> distinct (map fst (timers s))"
  by (simp add: timersOk_def)

lemma timersOk_pending: "timersOk s \<Longrightarrow> (h, t) \<in> set (timers s) \<Longrightarrow> h < nextTimer s"
  unfolding timersOk_def by blast

lemma timersOk_stored:
  "timersOk s \<Longrightarrow> map_of (roomStates s) r = Some rs \<Longrightarrow> roundTimeout rs = Some h \<Longrightarrow> h < nextTimer s"
  unfolding timersOk_def by blast

lemma timersOk_stored_round:
  "timersOk s \<Longrightarrow> map_of (roomStates s) r = Some rs \<Longrightarrow> roundTimeout rs = Some h \<Longrightarrow>
   (h, t) \<in> set (timers s) \<Longrightarrow> t = RoundTimer r"
  unfolding timersOk_def by blast

lemma timersOk_stored_sym:
  "timersOk s \<Longrightarrow> map_of (roomStates s) r = Some rs \<Longrightarrow> Some h = roundTimeout rs \<Longrightarrow> h < nextTimer s"
  unfolding timersOk_def by metis

lemma timersOk_stored_round_sym:
  "timersOk s \<Longrightarrow> map_of (roomStates s) r = Some rs \<Longrightarrow> Some h = roundTimeout rs \<Longrightarrow>
   (h, t) \<in> set (timers s) \<Longrightarrow> t = RoundTimer r"
  unfolding timersOk_def by metis

lemma timersOk_round:
  "timersOk s \<Longrightarrow> (h, RoundTimer r) \<in> set (timers s) \<Longrightarrow>
   \<exists>rs. map_of (roomStates s) r = Some rs \<and> roundTimeout rs = Some h"
  unfolding timersOk_def by blast

lemma timersOk_init: "timersOk init"
  by (simp add: timersOk_def init_def)

lemma timersOk_registry: "timersOk (s\<lparr>connectedUsers := c\<rparr>) = timersOk s"
  by (simp add: timersOk_def)

lemma timersOk_delete:
  assumes ok: "timersOk s"
  shows "timersOk (s\<lparr>timers := AList.delete h (timers s)\<rparr>)"
proof (rule timersOkI)
  show "distinct (map fst (timers (s\<lparr>timers := AList.delete h (timers s)\<rparr>)))"
    using timersOk_distinct[OF ok] by (simp add: distinct_delete)
qed (use ok in \<open>auto simp: set_delete dest: timersOk_pending timersOk_stored
       timersOk_stored_round timersOk_round\<close>)

lemma timersOk_clearTimeout: "timersOk s \<Longrightarrow> timersOk (clearTimeout x s)"
  by (cases x) (simp_all add: clearTimeout_def timersOk_delete)

lemma clearTimeout_fields:
  "roomStates (clearTimeout x s) = roomStates s"
  "nextTimer (clearTimeout x s) = nextTimer s"
  "connectedUsers (clearTimeout x s) = connectedUsers s"
  by (simp_all add: clearTimeout_def split: option.splits)

text \<open>Once a room's stored handle is cleared, none of its round timers is pending.\<close>

lemma clearTimeout_no_round:
  assumes ok: "timersOk s" and room: "map_of (roomStates s) rm = Some rs"
  shows "(h, RoundTimer rm) \<notin> set (timers (clearTimeout (roundTimeout rs) s))"
proof
  assume pending: "(h, RoundTimer rm) \<in> set (timers (clearTimeout (roundTimeout rs) s))"
  then have old: "(h, RoundTimer rm) \<in> set (timers s)"
    by (auto simp: clearTimeout_def set_delete split: option.splits)
  from timersOk_round[OF ok old] room have "roundTimeout rs = Some h"
    by auto
  with pending show False
    by (simp add: clearTimeout_def set_delete)
qed

lemma timersOk_update_same:
  assumes ok: "timersOk s" and room: "map_of (roomStates s) rm = Some rs"
      and same: "roundTimeout rs' = roundTimeout rs"
  shows "timersOk (s\<lparr>roomStates := AList.update rm rs' (roomStates s)\<rparr>)"
proof (rule timersOkI)
  fix h r
  assume "(h, RoundTimer r) \<in> set (timers (s\<lparr>roomStates := AList.update rm rs' (roomStates s)\<rparr>))"
  then obtain rs0 where "map_of (roomStates s) r = Some rs0" "roundTimeout rs0 = Some h"
    using timersOk_round[OF ok] by auto
  then show "\<exists>rs. map_of (roomStates (s\<lparr>roomStates := AList.update rm rs' (roomStates s)\<rparr>)) r = Some rs
               \<and> roundTimeout rs = Some h"
    using room same by (cases "r = rm") (auto simp: update_conv')
qed (use ok room same in \<open>auto simp: update_conv' timersOk_distinct split: if_splits
       dest: timersOk_pending timersOk_stored timersOk_stored_round
         timersOk_stored_sym timersOk_stored_round_sym\<close>)

lemma timersOk_update_new:
  assumes ok: "timersOk s" and room: "map_of (roomStates s) rm = None"
      and none: "roundTimeout rs' = None"
  shows "timersOk (s\<lparr>roomStates := AList.update rm rs' (roomStates s)\<rparr>)"
proof (rule timersOkI)
  fix h r
  assume "(h, RoundTimer r) \<in> set (timers (s\<lparr>roomStates := AList.update rm rs' (roomStates s)\<rparr>))"
  then obtain rs0 where "map_of (roomStates s) r = Some rs0" "roundTimeout rs0 = Some h"
    using timersOk_round[OF ok] by auto
  then show "\<exists>rs. map_of (roomStates (s\<lparr>roomStates := AList.update rm rs' (roomStates s)\<rparr>)) r = Some rs
               \<and> roundTimeout rs = Some h"
    using room by (cases "r = rm") (auto simp: update_conv')
qed (use ok room none in \<open>auto simp: update_conv' timersOk_distinct split: if_splits
       dest: timersOk_pending timersOk_stored timersOk_stored_round\<close>)

lemma timersOk_grace:
  assumes ok: "timersOk s"
  shows "timersOk (snd (setTimeout (GraceTimer u r) s))"
proof (rule timersOkI)
  show "distinct (map fst (timers (snd (setTimeout (GraceTimer u r) s))))"
    using timersOk_distinct[OF ok] timersOk_pending[OF ok]
    by (force simp: setTimeout_def)
next
  fix r' rs h t
  assume "map_of (roomStates (snd (setTimeout (GraceTimer u r) s))) r' = Some rs"
     and "roundTimeout rs = Some h"
     and "(h, t) \<in> set (timers (snd (setTimeout (GraceTimer u r) s)))"
  then show "t = RoundTimer r'"
    using timersOk_stored[OF ok, of r' rs h] timersOk_stored_round[OF ok, of r' rs h t]
    by (auto simp: setTimeout_def)
qed (use ok in \<open>auto simp: setTimeout_def less_Suc_eq
       dest: timersOk_pending timersOk_stored timersOk_round\<close>)

lemma timersOk_cleanupGame:
  assumes ok: "timersOk s"
  shows "timersOk (cleanupGame rm s)"
proof (cases "map_of (roomStates s) rm")
  case None
  then show ?thesis using ok by (simp add: cleanupGame_def)
next
  case (Some rs)
  let ?c = "clearTimeout (roundTimeout rs) s"
  have okc: "timersOk ?c"
    by (rule timersOk_clearTimeout[OF ok])
  have eq: "cleanupGame rm s = ?c\<lparr>roomStates := AList.delete rm (roomStates s)\<rparr>"
    using Some by (simp add: cleanupGame_def clearTimeout_fields)
  show ?thesis
    unfolding eq
  proof (rule timersOkI)
    fix h r
    assume p: "(h, RoundTimer r) \<in> set (timers (?c\<lparr>roomStates := AList.delete rm (roomStates s)\<rparr>))"
    then have "r \<noteq> rm"
      using clearTimeout_no_round[OF ok Some] by auto
    moreover obtain rs0 where "map_of (roomStates s) r = Some rs0" "roundTimeout rs0 = Some h"
      using timersOk_round[OF okc] p by (auto simp: clearTimeout_fields)
    ultimately show "\<exists>rs. map_of (roomStates (?c\<lparr>roomStates := AList.delete rm (roomStates s)\<rparr>)) r = Some rs
               \<and> roundTimeout rs = Some h"
      by (simp add: delete_conv')
  qed (use okc in \<open>auto simp: delete_conv' clearTimeout_fields timersOk_distinct split: if_splits
         dest: timersOk_pending timersOk_stored timersOk_stored_round\<close>)
qed

lemma timersOk_startNextRound:
  assumes ok: "timersOk s" and run: "startNextRound rm s = Inr (s', es)"
  shows "timersOk s'"
proof (cases "map_of (roomStates s) rm")
  case None
  then show ?thesis using run by (simp add: startNextRound_def)
next
  case (Some rs)
  let ?c = "clearTimeout (roundTimeout rs) s"
  let ?n = "nextTimer s"
  have okc: "timersOk ?c"
    by (rule timersOk_clearTimeout[OF ok])
  have gone: "\<And>h. (h, RoundTimer rm) \<notin> set (timers ?c)"
    by (rule clearTimeout_no_round[OF ok Some])
  have fresh: "\<And>h t. (h, t) \<in> set (timers ?c) \<Longrightarrow> h < ?n"
    using timersOk_pending[OF okc] by (simp add: clearTimeout_fields)
  have s': "s' = ?c\<lparr>timers := timers ?c @ [(?n, RoundTimer rm)],
                     nextTimer := Suc ?n,
                     roomStates := AList.update rm (rs\<lparr>roundTimeout := Some ?n\<rparr>) (roomStates s)\<rparr>"
    using run startNextRound_Some[OF Some] by simp
  show ?thesis
    unfolding s'
  proof (rule timersOkI)
    show "distinct (map fst (timers (?c\<lparr>timers := timers ?c @ [(?n, RoundTimer rm)],
                     nextTimer := Suc ?n,
                     roomStates := AList.update rm (rs\<lparr>roundTimeout := Some ?n\<rparr>) (roomStates s)\<rparr>)))"
      using timersOk_distinct[OF okc] fresh by force
  next
    fix h t
    assume "(h, t) \<in> set (timers (?c\<lparr>timers := timers ?c @ [(?n, RoundTimer rm)],
                     nextTimer := Suc ?n,
                     roomStates := AList.update rm (rs\<lparr>roundTimeout := Some ?n\<rparr>) (roomStates s)\<rparr>))"
    then show "h < nextTimer (?c\<lparr>timers := timers ?c @ [(?n, RoundTimer rm)],
                     nextTimer := Suc ?n,
                     roomStates := AList.update rm (rs\<lparr>roundTimeout := Some ?n\<rparr>) (roomStates s)\<rparr>)"
      using fresh by (auto simp: less_Suc_eq)
  next
    fix r rs1 h
    assume "map_of (roomStates (?c\<lparr>timers := timers ?c @ [(?n, RoundTimer rm)],
                     nextTimer := Suc ?n,
                     roomStates := AList.update rm (rs\<lparr>roundTimeout := Some ?n\<rparr>) (roomStates s)\<rparr>)) r = Some rs1"
       and "roundTimeout rs1 = Some h"
    then show "h < nextTimer (?c\<lparr>timers := timers ?c @ [(?n, RoundTimer rm)],
                     nextTimer := Suc ?n,
                     roomStates := AList.update rm (rs\<lparr>roundTimeout := Some ?n\<rparr>) (roomStates s)\<rparr>)"
      using timersOk_stored[OF ok, of r rs1 h]
      by (cases "r = rm") (auto simp: update_conv' less_Suc_eq)
  next
    fix r rs1 h t
    assume a: "map_of (roomStates (?c\<lparr>timers := timers ?c @ [(?n, RoundTimer rm)],
                     nextTimer := Suc ?n,
                     roomStates := AList.update rm (rs\<lparr>roundTimeout := Some ?n\<rparr>) (roomStates s)\<rparr>)) r = Some rs1"
       and b: "roundTimeout rs1 = Some h"
       and c: "(h, t) \<in> set (timers (?c\<lparr>timers := timers ?c @ [(?n, RoundTimer rm)],
                     nextTimer := Suc ?n,
                     roomStates := AList.update rm (rs\<lparr>roundTimeout := Some ?n\<rparr>) (roomStates s)\<rparr>))"
    show "t = RoundTimer r"
    proof (cases "r = rm")
      case True
      then have "h = ?n" using a b by (auto simp: update_conv')
      then show ?thesis using c fresh True by auto
    next
      case False
      then have old: "map_of (roomStates ?c) r = Some rs1"
        using a by (simp add: update_conv' clearTimeout_fields)
      have "h < ?n"
        using timersOk_stored[OF okc old b] by (simp add: clearTimeout_fields)
      then have "(h, t) \<in> set (timers ?c)" using c by auto
      then show ?thesis by (rule timersOk_stored_round[OF okc old b])
    qed
  next
    fix h r
    assume p: "(h, RoundTimer r) \<in> set (timers (?c\<lparr>timers := timers ?c @ [(?n, RoundTimer rm)],
                     nextTimer := Suc ?n,
                     roomStates := AList.update rm (rs\<lparr>roundTimeout := Some ?n\<rparr>) (roomStates s)\<rparr>))"
    show "\<exists>rs1. map_of (roomStates (?c\<lparr>timers := timers ?c @ [(?n, RoundTimer rm)],
                     nextTimer := Suc ?n,
                     roomStates := AList.update rm (rs\<lparr>roundTimeout := Some ?n\<rparr>) (roomStates s)\<rparr>)) r = Some rs1
              \<and> roundTimeout rs1 = Some h"
    proof (cases "(h, RoundTimer r) \<in> set (timers ?c)")
      case True
      then have "r \<noteq> rm" using gone by auto
      moreover obtain rs0 where "map_of (roomStates s) r = Some rs0" "roundTimeout rs0 = Some h"
        using timersOk_round[OF okc True] by (auto simp: clearTimeout_fields)
      ultimately show ?thesis by (simp add: update_conv')
    next
      case False
      then have "h = ?n" "r = rm" using p by auto
      then show ?thesis by (simp add: update_conv')
    qed
  qed
qed

lemma timersOk_resolveRound:
  assumes ok: "timersOk s" and room: "map_of (roomStates s) rm = Some rs0"
      and same: "roundTimeout rs = roundTimeout rs0"
      and run: "resolveRound rm rs s = Inr (s', es)"
  shows "timersOk s'"
proof -
  obtain p1 p2 where pl: "players rs = (p1, p2)"
    by (cases "players rs")
  define res where "res = determineRoundWinner (getProp (choices rs) p1) (getProp (choices rs) p2)"
  define sc where "sc = updateScores res p1 p2 (scores rs)"
  define s1 where
    "s1 = s\<lparr>roomStates :=
               AList.update rm (rs\<lparr>scores := sc, choices := [], roundNo := roundNo rs + 1\<rparr>) (roomStates s)\<rparr>"
  have ok1: "timersOk s1"
    unfolding s1_def using same by (intro timersOk_update_same[OF ok room]) simp
  show ?thesis
  proof (cases "gameWinner sc p1 p2")
    case (Some w)
    then have "s' = cleanupGame rm s1"
      using run pl by (simp add: resolveRound_def Let_def res_def sc_def s1_def)
    then show ?thesis by (simp add: timersOk_cleanupGame[OF ok1])
  next
    case None
    then obtain es1 where "startNextRound rm s1 = Inr (s', es1)"
      using run pl
      by (auto simp: resolveRound_def Let_def res_def sc_def s1_def split: sum.splits)
    then show ?thesis by (rule timersOk_startNextRound[OF ok1])
  qed
qed

lemma timersOk_handlePlayerChoice:
  assumes ok: "timersOk s" and run: "handlePlayerChoice socket uname rm choice s = Inr (s', es)"
  shows "timersOk s'"
proof (cases "map_of (roomStates s) rm")
  case None
  then show ?thesis
    using run ok by (cases socket) (simp_all add: handlePlayerChoice_def)
next
  case (Some rs)
  define rs1 where
    "rs1 = (if truthy uname
            then rs\<lparr>choices := AList.update (propKey uname) choice (choices rs)\<rparr> else rs)"
  have same: "roundTimeout rs1 = roundTimeout rs"
    by (simp add: rs1_def)
  consider (rejected) "s' = s"
    | (resolved) "resolveRound rm rs1 s = Inr (s', es)"
    | (recorded) "s' = s\<lparr>roomStates := AList.update rm rs1 (roomStates s)\<rparr>"
    using run Some
    by (auto simp: handlePlayerChoice_def Let_def rs1_def split: option.splits if_splits)
  then show ?thesis
  proof cases
    case rejected
    then show ?thesis using ok by simp
  next
    case resolved
    then show ?thesis by (rule timersOk_resolveRound[OF ok Some same])
  next
    case recorded
    then show ?thesis by (simp add: timersOk_update_same[OF ok Some same])
  qed
qed

lemma timersOk_roundTimerFired:
  assumes ok: "timersOk s" and run: "roundTimerFired rm s = Inr (s', es)"
  shows "timersOk s'"
proof (cases "map_of (roomStates s) rm")
  case None
  then show ?thesis using run by (simp add: roundTimerFired_def)
next
  case (Some rs)
  have "timersOk (s\<lparr>roomStates :=
           AList.update rm (rs\<lparr>choices := defaultChoices rs\<rparr>) (roomStates s)\<rparr>)"
    by (rule timersOk_update_same[OF ok Some]) simp
  then show ?thesis
    using run Some by (auto simp: roundTimerFired_def intro: timersOk_handlePlayerChoice)
qed

lemma timersOk_joinRoom:
  assumes ok: "timersOk s" and run: "joinRoom socket uname rm s = Inr (s', es)"
  shows "timersOk s'"
proof -
  let ?R = "''room:'' @ rm"
  define rs1 where
    "rs1 = (case map_of (roomStates s) ?R of
              None \<Rightarrow>
                \<lparr>roomUsers = [\<lparr>seatUsername = uname, seatSocketId = socket\<rparr>],
                 scores = [(uname, Num 0)], roundNo = 1, choices = [],
                 roundTimeout = None\<rparr>
            | Some roomState \<Rightarrow>
                roomState\<lparr>roomUsers :=
                            roomUsers roomState @ [\<lparr>seatUsername = uname, seatSocketId = socket\<rparr>],
                          scores := AList.update uname (Num 0) (scores roomState)\<rparr>)"
  have ok1: "timersOk (s\<lparr>roomStates := AList.update ?R rs1 (roomStates s)\<rparr>)"
  proof (cases "map_of (roomStates s) ?R")
    case None
    then show ?thesis by (intro timersOk_update_new[OF ok]) (simp_all add: rs1_def)
  next
    case (Some rs)
    then show ?thesis by (intro timersOk_update_same[OF ok Some]) (simp add: rs1_def)
  qed
  obtain cu where
    "s' = s\<lparr>connectedUsers := cu, roomStates := AList.update ?R rs1 (roomStates s)\<rparr>
     \<or> (\<exists>es1. startNextRound ?R (s\<lparr>connectedUsers := cu,
                   roomStates := AList.update ?R rs1 (roomStates s)\<rparr>) = Inr (s', es1))"
    using run
    by (auto simp: joinRoom_def Let_def rs1_def split: if_splits sum.splits)
  moreover have "timersOk (s\<lparr>connectedUsers := cu, roomStates := AList.update ?R rs1 (roomStates s)\<rparr>)
                 = timersOk (s\<lparr>roomStates := AList.update ?R rs1 (roomStates s)\<rparr>)"
    by (simp add: timersOk_def)
  ultimately show ?thesis
    using ok1 by (auto intro: timersOk_startNextRound)
qed

lemma timersOk_handleConnectToRoom:
  assumes ok: "timersOk s" and run: "handleConnectToRoom socket uname rm s = Inr (s', es)"
  shows "timersOk s'"
  using run ok
  by (auto simp: handleConnectToRoom_def split: if_splits option.splits list.splits
      intro: timersOk_joinRoom)

lemma timersOk_markUserForReconnection:
  assumes ok: "timersOk s"
  shows "timersOk (markUserForReconnection uname rm s)"
proof (cases "map_of (roomStates s) rm")
  case None
  then show ?thesis
    by (simp add: markUserForReconnection_def timersOk_grace[OF ok])
next
  case (Some rs)
  have "timersOk (s\<lparr>roomStates :=
           AList.update rm
             (rs\<lparr>roomUsers := filter (\<lambda>u. seatUsername u \<noteq> uname) (roomUsers rs)\<rparr>)
             (roomStates s)\<rparr>)"
    by (rule timersOk_update_same[OF ok Some]) simp
  then show ?thesis
    using Some by (simp add: markUserForReconnection_def timersOk_grace)
qed

lemma timersOk_handleDisconnecting:
  "timersOk s \<Longrightarrow> timersOk (fst (handleDisconnecting socket rooms s))"
proof (induction rooms arbitrary: s)
  case Nil
  then show ?case by simp
next
  case (Cons rm rooms)
  show ?case
  proof (cases "map_of (connectedUsers s) socket")
    case None
    then show ?thesis using Cons by simp
  next
    case (Some u)
    have "timersOk (markUserForReconnection (username u) rm s)"
      by (rule timersOk_markUserForReconnection[OF Cons.prems])
    from Cons.IH[OF this] show ?thesis
      using Some by (simp add: split_def Let_def)
  qed
qed

lemma timersOk_graceTimerFired:
  assumes ok: "timersOk s"
  shows "timersOk (fst (graceTimerFired uname rm s))"
proof -
  have "timersOk (s\<lparr>connectedUsers := c\<rparr>)" for c
    using ok by (simp add: timersOk_registry)
  then show ?thesis
    using ok
    by (auto simp: graceTimerFired_def Let_def split: option.splits intro: timersOk_cleanupGame)
qed

lemma timersOk_fireTimer:
  assumes ok: "timersOk s" and run: "fireTimer h s = Inr (s', es)"
  shows "timersOk s'"
proof (cases "map_of (timers s) h")
  case None
  then show ?thesis using run ok by (simp add: fireTimer_def)
next
  case (Some t)
  have ok1: "timersOk (s\<lparr>timers := AList.delete h (timers s)\<rparr>)"
    by (rule timersOk_delete[OF ok])
  show ?thesis
  proof (cases t)
    case (RoundTimer r)
    then have "roundTimerFired r (s\<lparr>timers := AList.delete h (timers s)\<rparr>) = Inr (s', es)"
      using run Some by (simp add: fireTimer_def)
    then show ?thesis by (rule timersOk_roundTimerFired[OF ok1])
  next
    case (GraceTimer u r)
    then have "s' = fst (graceTimerFired u r (s\<lparr>timers := AList.delete h (timers s)\<rparr>))"
      using run Some by (auto simp: fireTimer_def)
    then show ?thesis by (simp add: timersOk_graceTimerFired[OF ok1])
  qed
qed

lemma timersOk_step:
  assumes ok: "timersOk s" and run: "step i s = Inr (s', es)"
  shows "timersOk s'"
proof (cases i)
  case (ConnectToRoom socket uname rm)
  then show ?thesis using run timersOk_handleConnectToRoom[OF ok] by simp
next
  case (PlayerChoice socket uname rm choice)
  then show ?thesis using run timersOk_handlePlayerChoice[OF ok] by simp
next
  case (Disconnecting socket rooms)
  then show ?thesis using run timersOk_handleDisconnecting[OF ok, of socket rooms] by auto
next
  case (TimerFires h)
  then show ?thesis using run timersOk_fireTimer[OF ok] by simp
qed

lemma reachable_timersOk: "reachable s \<Longrightarrow> timersOk s"
  by (induction rule: reachable.induct) (auto intro: timersOk_init timersOk_step)

text \<open>
  A pending round timer finds its room in the table (the room object its closure holds
  is the table's entry), so its firing does not throw.
\<close>

lemma round_timer_fires:
  assumes reach: "reachable s" and pending: "map_of (timers s) h = Some (RoundTimer r)"
  shows "\<exists>s' es. fireTimer h s = Inr (s', es)"
proof -
  from timersOk_round[OF reachable_timersOk[OF reach] map_of_SomeD[OF pending]]
  obtain rs where rm: "map_of (roomStates s) r = Some rs"
    by blast
  let ?rs' = "rs\<lparr>choices := defaultChoices rs\<rparr>"
  let ?s' = "s\<lparr>timers := AList.delete h (timers s),
               roomStates := AList.update r ?rs' (roomStates s)\<rparr>"
  have room': "map_of (roomStates ?s') r = Some ?rs'"
    by (simp add: map_of_update_same)
  obtain p1 p2 where "players ?rs' = (p1, p2)"
    by (cases "players ?rs'")
  from resolveRound_shape[OF this, of r ?s'] show ?thesis
    unfolding fireTimer_round[OF pending rm] handlePlayerChoice_timer[OF room']
    by auto
qed

section \<open>Where the session manager departs from its description\<close>

lemmas scenario_defs =
  joins_def init_def seated_def seatedRoom_def registry_def bobGone_def bobBack_def
  aliceAway_def aliceReturned_def bothGone_def tornDown_def newGame_def endState_def

lemmas handler_defs =
  handleConnectToRoom_def joinRoom_def handlePlayerChoice_def resolveRound_def players_def
  determineRoundWinner_def getProp_def winMap_def updateScores_def increment_def
  gameWinner_def isFive_def sameScore_def validChoice_def startNextRound_def cleanupGame_def
  setTimeout_def clearTimeout_def CHOICE_TIME_def markUserForReconnection_def
  graceTimerFired_def fireTimer_def roundTimerFired_def defaultChoices_def Let_def

text \<open>
  C2. The handler has no check of the number of seats (the first revision,
  \<^verbatim>\<open>src/socket.js\<close> lines 32 to 35, answers \<^verbatim>\<open>room full\<close>). With \<^verbatim>\<open>alice\<close> and \<^verbatim>\<open>bob\<close>
  seated, a join of \<^verbatim>\<open>carol\<close> on a third socket is not rejected: no exception is
  emitted, the registry gets her entry and the room a third seat and score.
\<close>

theorem third_join_is_seated:
  "step (ConnectToRoom ''s3'' ''carol'' ''abcde'') seated =
     Inr (seated
            \<lparr>connectedUsers :=
               registry @ [(''s3'', \<lparr>username = ''carol'', room = ''abcde'', socketId = ''s3''\<rparr>)],
             roomStates :=
               [(''room:abcde'',
                 seatedRoom
                   \<lparr>roomUsers :=
                      [\<lparr>seatUsername = ''alice'', seatSocketId = ''s1''\<rparr>,
                       \<lparr>seatUsername = ''bob'', seatSocketId = ''s2''\<rparr>,
                       \<lparr>seatUsername = ''carol'', seatSocketId = ''s3''\<rparr>],
                    scores := [(''alice'', Num 0), (''bob'', Num 0), (''carol'', Num 0)]\<rparr>)]\<rparr>,
          [(ToRoom ''room:abcde'', RoomJoin ''carol joined room:abcde'')])"
  by (simp add: scenario_defs handler_defs)

text \<open>
  C5. On a reconnection join line 288 sets the joiner's score to 0 (the other revision,
  lines 64 to 67, keeps a score that is already there). \<^verbatim>\<open>alice\<close> leads 1 to 0 when her
  socket disconnects; her join on a new socket replaces her registry entry and seats her
  again, and her score is back at 0.
\<close>

theorem rejoin_resets_score:
  "endState (run (joins @
       [PlayerChoice ''s1'' (Str ''alice'') ''room:abcde'' (Str ''rock''),
        PlayerChoice ''s2'' (Str ''bob'') ''room:abcde'' (Str ''scissors''),
        Disconnecting ''s1'' [''s1'', ''room:abcde'']]) init) = Some aliceAway
   \<and> map (scores \<circ> snd) (roomStates aliceAway) = [[(''alice'', Num 1), (''bob'', Num 0)]]
   \<and> step (ConnectToRoom ''s3'' ''alice'' ''abcde'') aliceAway =
       Inr (aliceReturned,
            [(ToSocket ''s3'', RoomReconnect ''alice rejoined room:abcde''),
             (ToRoom ''room:abcde'', RoomJoin ''alice joined room:abcde''),
             (ToRoom ''room:abcde'', RoomReady ''players are ready, waiting for choice''),
             (ToRoom ''room:abcde'', StartRound 2 20)])
   \<and> map (scores \<circ> snd) (roomStates aliceReturned) = [[(''alice'', Num 0), (''bob'', Num 0)]]"
  by (simp add: scenario_defs handler_defs)

text \<open>
  C6. \<^verbatim>\<open>handleDisconnecting\<close> does not clear the round timer (the other revision, lines
  169 and 170, pauses the room and clears it). After \<^verbatim>\<open>bob\<close>'s disconnect the round
  timer 0 is still pending; when it fires the round is resolved with \<^verbatim>\<open>bob\<close> away:
  rock for \<^verbatim>\<open>alice\<close> against rock for the missing second player, a tie that takes
  \<^verbatim>\<open>alice\<close> to 1 and leaves a score \<^verbatim>\<open>NaN\<close> under the key \<^verbatim>\<open>undefined\<close>.
\<close>

theorem disconnect_keeps_round_timer:
  "step (Disconnecting ''s2'' [''s2'', ''room:abcde'']) seated =
     Inr (bobGone,
          [(ToRoom ''s2'', RoomDisconnect ''bob disconnected from s2''),
           (ToRoom ''room:abcde'', RoomDisconnect ''bob disconnected from room:abcde'')])
   \<and> map_of (timers bobGone) 0 = Some (RoundTimer ''room:abcde'')
   \<and> fireTimer 0 bobGone =
       Inr (bobGone
              \<lparr>roomStates :=
                 [(''room:abcde'',
                   \<lparr>roomUsers = [\<lparr>seatUsername = ''alice'', seatSocketId = ''s1''\<rparr>],
                    scores = [(''alice'', Num 1), (''bob'', Num 0), (''undefined'', NaN)],
                    roundNo = 2, choices = [], roundTimeout = Some 3\<rparr>)],
               timers :=
                 [(1, GraceTimer ''bob'' ''s2''), (2, GraceTimer ''bob'' ''room:abcde''),
                  (3, RoundTimer ''room:abcde'')],
               nextTimer := 4\<rparr>,
            [(ToRoom ''room:abcde'',
              RoundResult 1 [(''alice'', Str ''rock''), (''undefined'', Str ''rock'')] ''tie''
                [(''alice'', Num 1), (''bob'', Num 0), (''undefined'', NaN)]),
             (ToRoom ''room:abcde'', StartRound 2 20)])"
  by (simp add: scenario_defs handler_defs)

section \<open>Teardown\<close>

lemma run_reachable: "reachable s \<Longrightarrow> run is s = Inr (s', es) \<Longrightarrow> reachable s'"
proof (induction "is" arbitrary: s s' es)
  case Nil
  then show ?case by simp
next
  case (Cons i "is")
  from Cons.prems(2) obtain s1 es1 es2 where
    st: "step i s = Inr (s1, es1)" and rest: "run is s1 = Inr (s', es2)"
    by (auto split: sum.splits)
  have "reachable s1"
    by (rule reachable_step[OF Cons.prems(1) st])
  then show ?case
    by (rule Cons.IH[OF _ rest])
qed

lemma reachable_bothGone: "reachable bothGone"
proof -
  have "run (joins @ [Disconnecting ''s2'' [''s2'', ''room:abcde''],
                      Disconnecting ''s1'' [''s1'', ''room:abcde'']]) init
          = Inr (bothGone,
                 [(ToRoom ''room:abcde'', RoomJoin ''alice joined room:abcde''),
                  (ToRoom ''room:abcde'', RoomJoin ''bob joined room:abcde''),
                  (ToRoom ''room:abcde'', RoomReady ''players are ready, waiting for choice''),
                  (ToRoom ''room:abcde'', StartRound 1 20),
                  (ToRoom ''s2'', RoomDisconnect ''bob disconnected from s2''),
                  (ToRoom ''room:abcde'', RoomDisconnect ''bob disconnected from room:abcde''),
                  (ToRoom ''s1'', RoomDisconnect ''alice disconnected from s1''),
                  (ToRoom ''room:abcde'', RoomDisconnect ''alice disconnected from room:abcde'')])"
    by (simp add: scenario_defs handler_defs)
  then show ?thesis
    by (rule run_reachable[OF reachable_init])
qed

text \<open>
  C8, as the claim states it, fails. \<open>bothGone\<close> is reached by the two joins and the two
  disconnects. Tearing its room down cancels the round timer 0 and leaves the grace
  timers 2 and 4 of that room pending; timer 4, firing after the teardown, removes
  \<^verbatim>\<open>alice\<close>'s registry entry. In the run that leads to \<open>newGame\<close> the room is torn down
  when timer 2 fires, and timer 4, set for the old room, then ends the new game of
  \<^verbatim>\<open>carol\<close> and \<^verbatim>\<open>dave\<close>: it sends game-over for \<^verbatim>\<open>carol\<close> and tears the new room down.
\<close>

theorem teardown_keeps_grace_timers:
  "endState (run (joins @ [Disconnecting ''s2'' [''s2'', ''room:abcde''],
                           Disconnecting ''s1'' [''s1'', ''room:abcde'']]) init) = Some bothGone
   \<and> map_of (timers bothGone) 4 = Some (GraceTimer ''alice'' ''room:abcde'')
   \<and> cleanupGame ''room:abcde'' bothGone =
       bothGone\<lparr>roomStates := [],
                 timers := [(1, GraceTimer ''bob'' ''s2''), (2, GraceTimer ''bob'' ''room:abcde''),
                            (3, GraceTimer ''alice'' ''s1''), (4, GraceTimer ''alice'' ''room:abcde'')]\<rparr>
   \<and> fireTimer 4 (cleanupGame ''room:abcde'' bothGone) =
       Inr (bothGone\<lparr>roomStates := [],
                     timers := [(1, GraceTimer ''bob'' ''s2''), (2, GraceTimer ''bob'' ''room:abcde''),
                                (3, GraceTimer ''alice'' ''s1'')],
                     connectedUsers :=
                       [(''s2'', \<lparr>username = ''bob'', room = ''abcde'', socketId = ''s2''\<rparr>)]\<rparr>, [])
   \<and> connectedUsers (cleanupGame ''room:abcde'' bothGone) = registry
   \<and> step (TimerFires 2) bothGone = Inr (tornDown, [])
   \<and> run [ConnectToRoom ''s3'' ''carol'' ''abcde'', ConnectToRoom ''s4'' ''dave'' ''abcde''] tornDown =
       Inr (newGame,
            [(ToRoom ''room:abcde'', RoomJoin ''carol joined room:abcde''),
             (ToRoom ''room:abcde'', RoomJoin ''dave joined room:abcde''),
             (ToRoom ''room:abcde'', RoomReady ''players are ready, waiting for choice''),
             (ToRoom ''room:abcde'', StartRound 1 20)])
   \<and> step (TimerFires 4) newGame =
       Inr (newGame\<lparr>connectedUsers :=
                      [(''s3'', \<lparr>username = ''carol'', room = ''abcde'', socketId = ''s3''\<rparr>),
                       (''s4'', \<lparr>username = ''dave'', room = ''abcde'', socketId = ''s4''\<rparr>)],
                    roomStates := [],
                    timers := [(1, GraceTimer ''bob'' ''s2''), (3, GraceTimer ''alice'' ''s1'')]\<rparr>,
            [(ToRoom ''room:abcde'', GameOver (Str ''carol''))])"
  by (simp add: scenario_defs handler_defs)

text \<open>
  C8, amended. In a reachable state, \<open>cleanupGame\<close> removes the room from the table and
  leaves no round timer of that room pending; running it again changes nothing. It
  cancels no grace timer: each one pending before is pending after. A grace timer of
  the room that fires while the table has no room of that name emits nothing and leaves
  the table as it is; what it changes, besides leaving the pending set, is the registry,
  from which it removes the entries of its username.
\<close>

theorem teardown_round_timer:
  assumes "reachable s"
  shows "map_of (roomStates (cleanupGame rm s)) rm = None
       \<and> (\<forall>h. map_of (timers (cleanupGame rm s)) h \<noteq> Some (RoundTimer rm))
       \<and> cleanupGame rm (cleanupGame rm s) = cleanupGame rm s
       \<and> (\<forall>h u r. map_of (timers s) h = Some (GraceTimer u r) \<longrightarrow>
            map_of (timers (cleanupGame rm s)) h = Some (GraceTimer u r))
       \<and> (\<forall>h u s2. map_of (timers s2) h = Some (GraceTimer u rm) \<and> map_of (roomStates s2) rm = None \<longrightarrow>
            fireTimer h s2 =
              Inr (s2\<lparr>timers := AList.delete h (timers s2),
                      connectedUsers := filter (\<lambda>(id, x). username x \<noteq> u) (connectedUsers s2)\<rparr>, []))"
proof -
  have ok: "timersOk s"
    by (rule reachable_timersOk[OF assms])
  have gone: "map_of (roomStates (cleanupGame rm s)) rm = None"
    by (rule cleanupGame_room_gone)
  have noround: "map_of (timers (cleanupGame rm s)) h \<noteq> Some (RoundTimer rm)" for h
  proof
    assume "map_of (timers (cleanupGame rm s)) h = Some (RoundTimer rm)"
    then have "(h, RoundTimer rm) \<in> set (timers (cleanupGame rm s))"
      by (rule map_of_SomeD)
    from timersOk_round[OF timersOk_cleanupGame[OF ok] this] gone show False
      by simp
  qed
  have idem: "cleanupGame rm (cleanupGame rm s) = cleanupGame rm s"
    by (rule cleanupGame_absent[OF gone])
  have grace: "map_of (timers (cleanupGame rm s)) h = Some (GraceTimer u r)"
    if pending: "map_of (timers s) h = Some (GraceTimer u r)" for h u r
  proof (cases "map_of (roomStates s) rm")
    case None
    then show ?thesis using pending by (simp add: cleanupGame_absent)
  next
    case (Some rs)
    have "roundTimeout rs \<noteq> Some h"
    proof
      assume "roundTimeout rs = Some h"
      from timersOk_stored_round[OF ok Some this map_of_SomeD[OF pending]] show False
        by simp
    qed
    then show ?thesis
      using pending Some
      by (cases "roundTimeout rs") (auto simp: cleanupGame_def clearTimeout_def)
  qed
  have fire: "fireTimer h s2 =
      Inr (s2\<lparr>timers := AList.delete h (timers s2),
              connectedUsers := filter (\<lambda>(id, x). username x \<noteq> u) (connectedUsers s2)\<rparr>, [])"
    if "map_of (timers s2) h = Some (GraceTimer u rm)" and "map_of (roomStates s2) rm = None"
    for h u s2
    using that by (simp add: fireTimer_def graceTimerFired_def)
  from gone noround idem grace fire show ?thesis
    by blast
qed

text \<open>
  On \<open>bothGone\<close>: after the teardown the room is gone and the round timer 0 is not
  pending, the grace timer 4 still is, and its firing emits nothing.
\<close>

theorem teardown_round_timer_witness:
  "reachable bothGone
   \<and> map_of (roomStates (cleanupGame ''room:abcde'' bothGone)) ''room:abcde'' = None
   \<and> map_of (timers bothGone) 0 = Some (RoundTimer ''room:abcde'')
   \<and> map_of (timers (cleanupGame ''room:abcde'' bothGone)) 0 = None
   \<and> map_of (timers bothGone) 4 = Some (GraceTimer ''alice'' ''room:abcde'')
   \<and> map_of (timers (cleanupGame ''room:abcde'' bothGone)) 4 = Some (GraceTimer ''alice'' ''room:abcde'')
   \<and> (\<exists>s'. fireTimer 4 (cleanupGame ''room:abcde'' bothGone) = Inr (s', []))"
proof -
  note inst = teardown_round_timer [OF reachable_bothGone, of "''room:abcde''"]
  have t0: "map_of (timers bothGone) 0 = Some (RoundTimer ''room:abcde'')"
   and t4: "map_of (timers bothGone) 4 = Some (GraceTimer ''alice'' ''room:abcde'')"
    by (simp_all add: bothGone_def)
  have c0: "map_of (timers (cleanupGame ''room:abcde'' bothGone)) 0 = None"
    by (simp add: bothGone_def seatedRoom_def cleanupGame_def clearTimeout_def)
  from inst t4 have t4': "map_of (timers (cleanupGame ''room:abcde'' bothGone)) 4
      = Some (GraceTimer ''alice'' ''room:abcde'')"
    by blast
  from inst have gone: "map_of (roomStates (cleanupGame ''room:abcde'' bothGone)) ''room:abcde'' = None"
    by blast
  from inst t4' gone have "\<exists>s'. fireTimer 4 (cleanupGame ''room:abcde'' bothGone) = Inr (s', [])"
    by blast
  with reachable_bothGone gone t0 c0 t4 t4' show ?thesis
    by blast
qed

section \<open>The other revisions on the same inputs\<close>

text \<open>
  \<^verbatim>\<open>src/socket.js\<close> rejects a join to a room that already holds two sockets: the
  joiner alone is sent \<^verbatim>\<open>room full\<close> and nothing changes. So no room of it ever holds
  more than two.
\<close>

lemma room_full_socket_js:
  assumes "uname \<noteq> []" and "4 < length rm" and "map_of (lobbyUsers s) socket = None"
      and "map_of (lobbyRooms s) (''room:'' @ rm) = Some c" and "2 \<le> length c"
  shows "handleConnectToRoom_socket_js socket uname rm s =
           (s, [(ToSocket socket, Exception ''room full'')])"
  using assms by (simp add: handleConnectToRoom_socket_js_def)

lemma roomsOfTwo_connect:
  assumes "roomsOfTwo s"
  shows "roomsOfTwo (fst (handleConnectToRoom_socket_js socket uname rm s))"
  using assms
  by (auto simp: roomsOfTwo_def handleConnectToRoom_socket_js_def Let_def update_conv'
      split: option.splits if_splits)

lemma roomsOfTwo_remove:
  assumes "roomsOfTwo s"
  shows "roomsOfTwo (removeUserFromRoom sid rm s)"
proof -
  have "length (filter P c) \<le> 2" if "length c \<le> 2" for P and c :: "string list"
    using that length_filter_le[of P c] by linarith
  then show ?thesis
    using assms
    by (auto simp: roomsOfTwo_def removeUserFromRoom_def Let_def update_conv' delete_conv'
        split: option.splits if_splits)
qed

lemma roomsOfTwo_leaveRooms:
  "roomsOfTwo s \<Longrightarrow> roomsOfTwo (fst (leaveRooms socket rooms s))"
proof (induction rooms arbitrary: s)
  case Nil
  then show ?case by simp
next
  case (Cons rm rooms)
  show ?case
  proof (cases "map_of (lobbyUsers s) socket")
    case None
    then show ?thesis using Cons by simp
  next
    case (Some u)
    from Cons.IH[OF roomsOfTwo_remove[OF Cons.prems]] show ?thesis
      using Some by (simp add: split_def Let_def)
  qed
qed

lemma roomsOfTwo_disconnect:
  assumes "roomsOfTwo s"
  shows "roomsOfTwo (fst (handleDisconnecting_socket_js socket rooms s))"
  using roomsOfTwo_leaveRooms[OF assms, of socket rooms]
  by (simp add: handleDisconnecting_socket_js_def split_def Let_def roomsOfTwo_def)

text \<open>
  In the revision with the pause flag a join to an existing room keeps the joiner's
  score when there is one, and a disconnect clears the room's round timer and pauses
  the room before the grace timer is set.
\<close>

lemma startNextRound_paused_scores:
  assumes "startNextRound_paused R s = Inr (s', es)" and "map_of (roomStatesP s) R = Some rs"
  shows "\<exists>rs'. map_of (roomStatesP s') R = Some rs' \<and> scores rs' = scores rs"
  using assms
  by (auto simp: startNextRound_paused_def Let_def clearInterval_def update_conv'
      split: if_splits option.splits)

lemma rejoin_keeps_score_paused:
  assumes run: "joinRoom_paused socket uname rm s = Inr (s', es)"
      and rm: "map_of (roomStatesP s) (''room:'' @ rm) = Some rs"
      and score: "map_of (scores rs) uname = Some (Num n)"
  shows "\<exists>rs'. map_of (roomStatesP s') (''room:'' @ rm) = Some rs' \<and> scores rs' = scores rs"
proof -
  let ?R = "''room:'' @ rm"
  define isRe where
    "isRe = list_ex (\<lambda>u. username u = uname \<and> room u = rm) (map snd (connectedUsersP s))"
  define cu where
    "cu = (if isRe then
             AList.update socket \<lparr>username = uname, room = rm, socketId = socket\<rparr>
               (case map_option fst (find (\<lambda>(id, u). username u = uname) (connectedUsersP s)) of
                  None \<Rightarrow> connectedUsersP s
                | Some old \<Rightarrow>
                    if old \<noteq> [] then AList.delete old (connectedUsersP s)
                    else connectedUsersP s)
           else AList.update socket \<lparr>username = uname, room = rm, socketId = socket\<rparr>
                  (connectedUsersP s))"
  define rs1 where
    "rs1 = rs\<lparr>roomUsers := roomUsers rs @ [\<lparr>seatUsername = uname, seatSocketId = socket\<rparr>],
              scores := scores rs,
              paused := (if isRe then False else paused rs)\<rparr>"
  define s1 where
    "s1 = s\<lparr>connectedUsersP := cu, roomStatesP := AList.update ?R rs1 (roomStatesP s)\<rparr>"
  have same: "(case map_of (scores rs) uname of
                 Some (Num n) \<Rightarrow>
                   if n = 0 then AList.update uname (Num 0) (scores rs) else scores rs
               | _ \<Rightarrow> AList.update uname (Num 0) (scores rs)) = scores rs"
    using score by (simp add: update_triv)
  have room1: "map_of (roomStatesP s1) ?R = Some rs1" and sc1: "scores rs1 = scores rs"
    by (simp_all add: s1_def rs1_def update_conv')
  have "s' = s1 \<or> (\<exists>es3. startNextRound_paused ?R s1 = Inr (s', es3))"
    using run rm
    by (auto simp: joinRoom_paused_def Let_def isRe_def cu_def rs1_def s1_def same
        split: if_splits sum.splits)
  then show ?thesis
  proof
    assume "s' = s1"
    then show ?thesis using room1 sc1 by blast
  next
    assume "\<exists>es3. startNextRound_paused ?R s1 = Inr (s', es3)"
    then obtain es3 where "startNextRound_paused ?R s1 = Inr (s', es3)"
      by blast
    from startNextRound_paused_scores[OF this room1] show ?thesis
      using sc1 by simp
  qed
qed

lemma disconnect_clears_round_timer_paused:
  assumes "map_of (connectedUsersP s) socket = Some u"
      and "map_of (roomStatesP s) rm = Some rs"
      and "roundTimeout rs = Some h" and "h < nextTimerP s"
  shows "map_of (timersP (fst (disconnectFrom_paused socket rm s))) h = None
       \<and> (\<exists>rs'. map_of (roomStatesP (fst (disconnectFrom_paused socket rm s))) rm = Some rs'
                \<and> paused rs')"
  using assms
  by (simp add: disconnectFrom_paused_def Let_def clearInterval_def map_add_def delete_conv'
      update_conv')

end
